theory Spec2Isabelle
  imports Main "HOL-Library.AList" "HOL-Library.Sublist"
begin

section \<open>Values and the configuration struct\<close>

text \<open>
  Go's \<^verbatim>\<open>interface{}\<close> as the configuration file and the flag layer fill it: a string,
  an \<^verbatim>\<open>int\<close>, a \<^verbatim>\<open>bool\<close>, \<^verbatim>\<open>nil\<close>, a slice, or a
  \<^verbatim>\<open>map[string]interface{}\<close>. A map is an association list read with \<open>map_of\<close>.
  Floating-point values are left out. Go's \<^verbatim>\<open>int\<close> is 64 bits wide; the program only
  compares and prints integers, so they are modelled as \<open>int\<close>.
\<close>

datatype any =
    AStr string
  | AInt int
  | ABool bool
  | ANil
  | AList "any list"
  | AMap "(string \<times> any) list"

text \<open>
  \<^verbatim>\<open>m[key]\<close> on a Go map: the zero value \<^verbatim>\<open>nil\<close> when the key is missing, and no
  panic (also on a nil map).
\<close>

definition index :: "(string \<times> any) list \<Rightarrow> string \<Rightarrow> any" where
  "index m key = (case map_of m key of Some val \<Rightarrow> val | None \<Rightarrow> ANil)"

text \<open>The structs of package \<^verbatim>\<open>config\<close>, field for field.\<close>

record AppConfig =
  Name :: string
  Version :: string
  Environment :: string

record ServerConfig =
  Host :: string
  Port :: int
  Timeout :: int

record DatabaseConfig =
  DbHost :: string
  DbPort :: int
  Username :: string
  Password :: string
  DbName :: string

record LoggingConfig =
  Level :: string
  Format :: string

record Config =
  App :: AppConfig
  Server :: ServerConfig
  Database :: DatabaseConfig
  Logging :: LoggingConfig

text \<open>
  Modelled from the spec: the \<^verbatim>\<open>Extensions\<close> field that the helpers
  \<^verbatim>\<open>GetExtensionString\<close>, \<^verbatim>\<open>GetExtensionBool\<close> and \<^verbatim>\<open>GetExtensionInt\<close> read.
  No \<^verbatim>\<open>Config\<close> struct under src/ declares it; the spec describes it as a mapping from
  string to arbitrary nested value, and the helpers use it at type
  \<^verbatim>\<open>map[string]interface{}\<close>.
\<close>

record ExtConfig = Config +
  Extensions :: "(string \<times> any) list"

section \<open>Formatting\<close>

text \<open>
  \<^verbatim>\<open>strconv.Itoa\<close>, which \<^verbatim>\<open>%v\<close> and \<^verbatim>\<open>%d\<close> print an integer with: decimal digits,
  a minus sign for a negative number.
\<close>

definition digit :: "nat \<Rightarrow> char" where
  "digit n = ''0123456789'' ! n"

function utoa :: "nat \<Rightarrow> string" where
  "utoa n = (if n < 10 then [digit n] else utoa (n div 10) @ [digit (n mod 10)])"
  by pat_completeness auto
termination
  by (relation "measure (\<lambda>n. n)") auto

declare utoa.simps [simp del]

definition itoa :: "int \<Rightarrow> string" where
  "itoa i = (if i < 0 then CHR ''-'' # utoa (nat (- i)) else utoa (nat i))"

lemma itoa_1024: "itoa 1024 = ''1024''"
  by (simp add: itoa_def utoa.simps digit_def)

lemma itoa_9000: "itoa 9000 = ''9000''"
  by (simp add: itoa_def utoa.simps digit_def)

section \<open>Flags\<close>

text \<open>
  A \<^verbatim>\<open>pflag.Flag\<close>: its value has the type the flag was defined with, \<^verbatim>\<open>Changed\<close> is set
  only when the flag was given on the command line. The value is kept typed; pflag
  prints an int flag in decimal and viper reads that text back, so nothing is lost.
\<close>

datatype FlagValue = StringValue string | IntValue int | BoolValue bool

record Flag =
  FlagName :: string
  Shorthand :: string
  Usage :: string
  FlagVal :: FlagValue
  DefValue :: FlagValue
  Changed :: bool

type_synonym FlagSet = "Flag list"

definition Lookup :: "FlagSet \<Rightarrow> string \<Rightarrow> Flag option" where
  "Lookup fs name = List.find (\<lambda>f. FlagName f = name) fs"

text \<open>
  \<^verbatim>\<open>FlagSet.StringP\<close>, \<^verbatim>\<open>IntP\<close> and \<^verbatim>\<open>BoolP\<close> add a flag holding its default. pflag
  panics when the name or a non-empty shorthand is already taken.
\<close>

definition newFlag :: "string \<Rightarrow> string \<Rightarrow> string \<Rightarrow> FlagValue \<Rightarrow> Flag" where
  "newFlag name shorthand usage val =
     \<lparr> FlagName = name, Shorthand = shorthand, Usage = usage, FlagVal = val, DefValue = val,
       Changed = False \<rparr>"

definition AddFlag :: "string \<Rightarrow> string \<Rightarrow> FlagValue \<Rightarrow> string \<Rightarrow> FlagSet \<Rightarrow> string + FlagSet" where
  "AddFlag name shorthand val usage fs =
     (if Lookup fs name \<noteq> None then Inl (name @ '' flag redefined: '' @ name)
      else if shorthand \<noteq> '''' \<and> shorthand \<in> set (map Shorthand fs)
        then Inl (''unable to redefine shorthand '' @ shorthand)
      else Inr (fs @ [newFlag name shorthand usage val]))"

text \<open>
  \<^verbatim>\<open>Flag.Value.Set\<close> as the command line drives it: the new value must be of the flag's
  type (pflag rejects text that does not parse to it), and the flag counts as changed.
\<close>

fun ValueType :: "FlagValue \<Rightarrow> string" where
  "ValueType (StringValue s) = ''string''"
| "ValueType (IntValue i) = ''int''"
| "ValueType (BoolValue b) = ''bool''"

section \<open>The viper instance\<close>

text \<open>
  A viper key is a dotted path; \<^verbatim>\<open>strings.Split(key, ".")\<close> gives its segments and
  \<^verbatim>\<open>strings.Join\<close> puts them together again. Inside the model a key is the list of its
  segments: the spec stipulates that a segment never contains the separator, and
  viper has lower-cased every key of the file when it read it.
\<close>

type_synonym key = "string list"

fun splitKey :: "string \<Rightarrow> string \<Rightarrow> key" where
  "splitKey acc [] = [acc]"
| "splitKey acc (c # cs) = (if c = CHR ''.'' then acc # splitKey [] cs else splitKey (acc @ [c]) cs)"

fun joinKey :: "key \<Rightarrow> string" where
  "joinKey [] = ''''"
| "joinKey [k] = k"
| "joinKey (k # ks) = k @ ''.'' @ joinKey ks"

text \<open>
  The parts of \<^verbatim>\<open>viper.Viper\<close> that the program touches. \<^verbatim>\<open>pflags\<close> binds a key to a
  flag of the command's flag set, held by its name since the flag is shared with cobra,
  which sets it after the binding. Overrides, aliases, defaults, bound environment
  variables and the key/value store stay empty in this program and are left out.
\<close>

record Viper =
  pflags :: "(key \<times> string) list"
  envPrefix :: string
  envKeyReplacer :: "(char \<times> char) option"
  automaticEnvApplied :: bool
  allowEmptyEnv :: bool
  configFile :: string
  configPaths :: "string list"
  configName :: string
  configType :: string
  config :: "(string \<times> any) list"

definition New :: Viper where
  "New = \<lparr> pflags = [], envPrefix = '''', envKeyReplacer = None, automaticEnvApplied = False,
           allowEmptyEnv = False, configFile = '''', configPaths = [], configName = ''config'',
           configType = '''', config = [] \<rparr>"

definition BindPFlag :: "string \<Rightarrow> Flag option \<Rightarrow> Viper \<Rightarrow> string + Viper" where
  "BindPFlag k flag vp =
     (case flag of
        None \<Rightarrow> Inl (''flag for '' @ k @ '' is nil'')
      | Some f \<Rightarrow> Inr (vp\<lparr> pflags := AList.update (splitKey [] k) (FlagName f) (pflags vp) \<rparr>))"

section \<open>The command: globals, init\<close>

text \<open>
  The package variables of \<^verbatim>\<open>cmd\<close>: \<^verbatim>\<open>cfgFile\<close>, the viper instance \<^verbatim>\<open>v\<close> (here \<open>viper\<close>), and the
  flag set of \<^verbatim>\<open>rootCmd\<close>.
\<close>

record Globals =
  cfgFile :: string
  viper :: Viper
  flags :: FlagSet

text \<open>
  \<^verbatim>\<open>bindStringFlag\<close>, \<^verbatim>\<open>bindIntFlag\<close>, \<^verbatim>\<open>bindBoolFlag\<close>: define the flag and bind it to
  the viper key; a failed binding panics (\<open>Inl\<close>).
\<close>

definition bindFlag :: "string \<Rightarrow> string \<Rightarrow> string \<Rightarrow> FlagValue \<Rightarrow> string \<Rightarrow> Globals \<Rightarrow> string + Globals" where
  "bindFlag viperKey flagName shorthand defaultVal usage g =
     (case AddFlag flagName shorthand defaultVal usage (flags g) of
        Inl p \<Rightarrow> Inl p
      | Inr fs \<Rightarrow>
          (case BindPFlag viperKey (Lookup fs flagName) (viper g) of
             Inl err \<Rightarrow> Inl (''failed to bind flag '' @ flagName @ '' to '' @ viperKey @ '': '' @ err)
           | Inr vp \<Rightarrow> Inr (g\<lparr> viper := vp, flags := fs \<rparr>)))"

definition bindStringFlag :: "string \<Rightarrow> string \<Rightarrow> string \<Rightarrow> string \<Rightarrow> string \<Rightarrow> Globals \<Rightarrow> string + Globals" where
  "bindStringFlag viperKey flagName shorthand defaultVal usage =
     bindFlag viperKey flagName shorthand (StringValue defaultVal) usage"

definition bindIntFlag :: "string \<Rightarrow> string \<Rightarrow> string \<Rightarrow> int \<Rightarrow> string \<Rightarrow> Globals \<Rightarrow> string + Globals" where
  "bindIntFlag viperKey flagName shorthand defaultVal usage =
     bindFlag viperKey flagName shorthand (IntValue defaultVal) usage"

definition bindBoolFlag :: "string \<Rightarrow> string \<Rightarrow> string \<Rightarrow> bool \<Rightarrow> string \<Rightarrow> Globals \<Rightarrow> string + Globals" where
  "bindBoolFlag viperKey flagName shorthand defaultVal usage =
     bindFlag viperKey flagName shorthand (BoolValue defaultVal) usage"

text \<open>Statements in sequence, a panic ending the run.\<close>

fun steps :: "('s \<Rightarrow> string + 's) list \<Rightarrow> 's \<Rightarrow> string + 's" where
  "steps [] s = Inr s"
| "steps (f # fs) s = (case f s of Inl p \<Rightarrow> Inl p | Inr s' \<Rightarrow> steps fs s')"

text \<open>
  \<^verbatim>\<open>init\<close>: a fresh viper, then the thirteen bindings in the order of the source. The
  \<^verbatim>\<open>--config\<close> flag is a persistent flag written to \<^verbatim>\<open>cfgFile\<close>; it is not bound to
  viper.
\<close>

definition init :: "string + Globals" where
  "init = steps
     [bindStringFlag ''app.name'' ''app-name'' ''n'' '''' ''Application name'',
      bindStringFlag ''app.version'' ''app-version'' ''v'' '''' ''Application version'',
      bindStringFlag ''app.environment'' ''app-environment'' ''e'' '''' ''Application environment'',
      bindStringFlag ''server.host'' ''server-host'' '''' '''' ''Server host'',
      bindIntFlag ''server.port'' ''server-port'' ''p'' 0 ''Server port'',
      bindIntFlag ''server.timeout'' ''server-timeout'' ''t'' 0 ''Server timeout in seconds'',
      bindStringFlag ''database.host'' ''db-host'' '''' '''' ''Database host'',
      bindIntFlag ''database.port'' ''db-port'' '''' 0 ''Database port'',
      bindStringFlag ''database.username'' ''db-username'' ''u'' '''' ''Database username'',
      bindStringFlag ''database.password'' ''db-password'' '''' '''' ''Database password'',
      bindStringFlag ''database.name'' ''db-name'' ''d'' '''' ''Database name'',
      bindStringFlag ''logging.level'' ''log-level'' ''l'' '''' ''Logging level'',
      bindStringFlag ''logging.format'' ''log-format'' ''f'' '''' ''Logging format'']
     \<lparr> cfgFile = '''', viper = New, flags = [] \<rparr>"

text \<open>
  The command line as cobra has parsed it: \<^verbatim>\<open>--config\<close> with its path, or a flag with a
  value. An unknown flag and a value of the wrong type make \<^verbatim>\<open>Execute\<close> fail before
  the command runs.
\<close>

datatype arg = ConfigArg string | FlagArg string FlagValue

fun setFlag :: "string \<Rightarrow> FlagValue \<Rightarrow> FlagSet \<Rightarrow> string + FlagSet" where
  "setFlag name val [] = Inl (''unknown flag: --'' @ name)"
| "setFlag name val (f # fs) =
     (if FlagName f = name then
        (if ValueType (FlagVal f) = ValueType val then Inr (f\<lparr> FlagVal := val, Changed := True \<rparr> # fs)
         else Inl (''invalid argument for --'' @ name))
      else (case setFlag name val fs of Inl e \<Rightarrow> Inl e | Inr fs' \<Rightarrow> Inr (f # fs')))"

fun parseArg :: "arg \<Rightarrow> Globals \<Rightarrow> string + Globals" where
  "parseArg (ConfigArg path) g = Inr (g\<lparr> cfgFile := path \<rparr>)"
| "parseArg (FlagArg name val) g =
     (case setFlag name val (flags g) of Inl e \<Rightarrow> Inl e | Inr fs \<Rightarrow> Inr (g\<lparr> flags := fs \<rparr>))"

definition ParseFlags :: "arg list \<Rightarrow> Globals \<Rightarrow> string + Globals" where
  "ParseFlags args g = steps (map parseArg args) g"

section \<open>Environment variables\<close>

text \<open>
  The process environment: \<^verbatim>\<open>os.LookupEnv\<close> is the map itself, \<^verbatim>\<open>os.Getenv\<close> gives
  the empty string for a variable that is not set.
\<close>

type_synonym Env = "string \<Rightarrow> string option"

definition Getenv :: "Env \<Rightarrow> string \<Rightarrow> string" where
  "Getenv env name = (case env name of Some val \<Rightarrow> val | None \<Rightarrow> '''')"

text \<open>\<^verbatim>\<open>strings.ToUpper\<close> on the ASCII letters; other bytes are kept.\<close>

definition upper :: "char \<Rightarrow> char" where
  "upper c =
     (case map_of (zip ''abcdefghijklmnopqrstuvwxyz'' ''ABCDEFGHIJKLMNOPQRSTUVWXYZ'') c of
        Some u \<Rightarrow> u
      | None \<Rightarrow> c)"

definition ToUpper :: "string \<Rightarrow> string" where
  "ToUpper s = map upper s"

text \<open>
  \<^verbatim>\<open>mergeWithEnvPrefix\<close> and \<^verbatim>\<open>getEnv\<close>. The replacer of the program maps one byte to
  one byte (\<^verbatim>\<open>"."\<close> to \<^verbatim>\<open>"_"\<close>). A variable that is set to the empty string counts as
  not set unless \<^verbatim>\<open>AllowEmptyEnv\<close> was switched on, which the program never does.
\<close>

definition mergeWithEnvPrefix :: "Viper \<Rightarrow> string \<Rightarrow> string" where
  "mergeWithEnvPrefix vp k =
     (if envPrefix vp \<noteq> '''' then ToUpper (envPrefix vp @ ''_'' @ k) else ToUpper k)"

definition Replace :: "(char \<times> char) option \<Rightarrow> string \<Rightarrow> string" where
  "Replace r s = (case r of None \<Rightarrow> s | Some (old, new) \<Rightarrow> map (\<lambda>c. if c = old then new else c) s)"

definition getEnv :: "Env \<Rightarrow> Viper \<Rightarrow> string \<Rightarrow> string option" where
  "getEnv env vp k =
     (case env (Replace (envKeyReplacer vp) k) of
        None \<Rightarrow> None
      | Some val \<Rightarrow> (if allowEmptyEnv vp \<or> val \<noteq> '''' then Some val else None))"

section \<open>Looking a key up\<close>

text \<open>
  \<^verbatim>\<open>searchMap\<close>: the value at a path of nested maps, \<open>ANil\<close> when the path does not
  exist or runs into a value that is not a map. On keys whose segments hold no
  separator, the search of the configuration file with path prefixes finds the same.
\<close>

fun searchMap :: "(string \<times> any) list \<Rightarrow> key \<Rightarrow> any" where
  "searchMap source [] = AMap source"
| "searchMap source [k] = index source k"
| "searchMap source (k # path) =
     (case map_of source k of Some (AMap next) \<Rightarrow> searchMap next path | _ \<Rightarrow> ANil)"

text \<open>The proper, non-empty prefixes of a path, shortest first.\<close>

fun parents :: "key \<Rightarrow> key list" where
  "parents [] = []"
| "parents [k] = []"
| "parents (k # path) = [k] # map ((#) k) (parents path)"

text \<open>
  The three shadow tests of viper: a parent of the path is a key of a flat map, is set
  in the environment, or holds a plain value in a nested map.
\<close>

definition isPathShadowedInFlatMap :: "key \<Rightarrow> key list \<Rightarrow> bool" where
  "isPathShadowedInFlatMap path ks = list_ex (\<lambda>parent. parent \<in> set ks) (parents path)"

definition isPathShadowedInAutoEnv :: "Env \<Rightarrow> Viper \<Rightarrow> key \<Rightarrow> bool" where
  "isPathShadowedInAutoEnv env vp path =
     list_ex (\<lambda>parent. getEnv env vp (mergeWithEnvPrefix vp (joinKey parent)) \<noteq> None) (parents path)"

fun shadowedDeep :: "key list \<Rightarrow> (string \<times> any) list \<Rightarrow> bool" where
  "shadowedDeep [] m = False"
| "shadowedDeep (parent # ps) m =
     (case searchMap m parent of
        ANil \<Rightarrow> False
      | AMap m' \<Rightarrow> shadowedDeep ps m
      | _ \<Rightarrow> True)"

definition isPathShadowedInDeepMap :: "key \<Rightarrow> (string \<times> any) list \<Rightarrow> bool" where
  "isPathShadowedInDeepMap path m = shadowedDeep (parents path) m"

text \<open>What viper takes from a flag: its value, as a string, an int or a bool.\<close>

fun flagAny :: "FlagValue \<Rightarrow> any" where
  "flagAny (StringValue s) = AStr s"
| "flagAny (IntValue i) = AInt i"
| "flagAny (BoolValue b) = ABool b"

definition boundFlag :: "FlagSet \<Rightarrow> Viper \<Rightarrow> key \<Rightarrow> Flag option" where
  "boundFlag fs vp path =
     (case map_of (pflags vp) path of None \<Rightarrow> None | Some name \<Rightarrow> Lookup fs name)"

text \<open>
  \<^verbatim>\<open>Viper.find\<close> with \<^verbatim>\<open>flagDefault\<close> on, as \<^verbatim>\<open>Get\<close> calls it; \<open>ANil\<close> is Go's
  \<^verbatim>\<open>nil\<close>. In order: a bound flag that was changed; the environment variable of the
  key; the configuration file; at last the default of a bound flag. After each layer
  a nested key whose parent is shadowed there resolves to nil.
\<close>

definition find :: "FlagSet \<Rightarrow> Env \<Rightarrow> Viper \<Rightarrow> key \<Rightarrow> any" where
  "find fs env vp path =
     (let nested = (1 < length path);
          flag = boundFlag fs vp path
      in
      if (case flag of Some f \<Rightarrow> Changed f | None \<Rightarrow> False) then
        (case flag of Some f \<Rightarrow> flagAny (FlagVal f) | None \<Rightarrow> ANil)
      else if nested \<and> isPathShadowedInFlatMap path (map fst (pflags vp)) then ANil
      else
        (case (if automaticEnvApplied vp
               then getEnv env vp (mergeWithEnvPrefix vp (joinKey path)) else None) of
           Some val \<Rightarrow> AStr val
         | None \<Rightarrow>
             if automaticEnvApplied vp \<and> nested \<and> isPathShadowedInAutoEnv env vp path then ANil
             else if searchMap (config vp) path \<noteq> ANil then searchMap (config vp) path
             else if nested \<and> isPathShadowedInDeepMap path (config vp) then ANil
             else (case flag of Some f \<Rightarrow> flagAny (FlagVal f) | None \<Rightarrow> ANil)))"

section \<open>All keys and all settings\<close>

text \<open>
  \<^verbatim>\<open>mergeFlatMap\<close> adds the keys of a flat map to the shadow map unless a parent is
  already in it; \<^verbatim>\<open>flattenAndMergeMap\<close> adds the leaves of a nested map, and does not
  descend below a prefix that is already a key.
\<close>

fun mergeFlatMap :: "key list \<Rightarrow> key list \<Rightarrow> key list" where
  "mergeFlatMap shadow [] = shadow"
| "mergeFlatMap shadow (k # ks) =
     mergeFlatMap (if list_ex (\<lambda>parent. parent \<in> set shadow) (parents k) then shadow
                   else List.insert k shadow) ks"

fun flattenAndMergeMap :: "key list \<Rightarrow> (string \<times> any) list \<Rightarrow> key \<Rightarrow> key list"
  and flattenEntries :: "key list \<Rightarrow> (string \<times> any) list \<Rightarrow> key \<Rightarrow> key list" where
  "flattenAndMergeMap shadow m pfx =
     (if pfx \<noteq> [] \<and> pfx \<in> set shadow then shadow else flattenEntries shadow m pfx)"
| "flattenEntries shadow [] pfx = shadow"
| "flattenEntries shadow ((k, AMap m2) # rest) pfx =
     flattenEntries (flattenAndMergeMap shadow m2 (pfx @ [k])) rest pfx"
| "flattenEntries shadow ((k, val) # rest) pfx =
     flattenEntries (List.insert (pfx @ [k]) shadow) rest pfx"

definition AllKeys :: "Viper \<Rightarrow> key list" where
  "AllKeys vp = flattenAndMergeMap (mergeFlatMap [] (map fst (pflags vp))) (config vp) []"

text \<open>
  \<^verbatim>\<open>deepSearch\<close> followed by the assignment of the innermost value: a missing
  intermediate key gets a new map, an intermediate plain value is replaced by one.
\<close>

fun deepSet :: "key \<Rightarrow> any \<Rightarrow> (string \<times> any) list \<Rightarrow> (string \<times> any) list" where
  "deepSet [] val m = m"
| "deepSet [lastKey] val m = AList.update lastKey val m"
| "deepSet (k # path) val m =
     (case map_of m k of
        Some (AMap m3) \<Rightarrow> AList.update k (AMap (deepSet path val m3)) m
      | _ \<Rightarrow> AList.update k (AMap (deepSet path val [])) m)"

text \<open>
  \<^verbatim>\<open>getSettings\<close> builds the nested map one key at a time and skips a key that
  resolves to nil. The keys come from a Go map, whose iteration order is not
  specified: the order is the argument \<open>ks\<close>, and what is proved holds for every
  order.
\<close>

definition getSettings :: "FlagSet \<Rightarrow> Env \<Rightarrow> Viper \<Rightarrow> key list \<Rightarrow> (string \<times> any) list" where
  "getSettings fs env vp ks =
     fold (\<lambda>k m. if find fs env vp k = ANil then m else deepSet k (find fs env vp k) m) ks []"

text \<open>
  A parser to run the model with: it reads a run of decimal digits, with an optional
  minus sign, in base 10. It is not \<^verbatim>\<open>strconv.ParseInt(s, 0, 64)\<close>, which reads a
  leading zero as octal, takes the prefixes \<^verbatim>\<open>0x\<close>, \<^verbatim>\<open>0o\<close> and \<^verbatim>\<open>0b\<close>, a plus sign and
  underscores, and rejects what does not fit 64 bits; the two agree on a text without
  digits and on the numbers below, which have no leading zero. Theorems are stated for
  every parser; this one serves at those concrete inputs only.
\<close>

fun digitsVal :: "nat \<Rightarrow> string \<Rightarrow> nat option" where
  "digitsVal acc [] = Some acc"
| "digitsVal acc (c # cs) =
     (case map_of (zip ''0123456789'' [0, 1, 2, 3, 4, 5, 6, 7, 8, 9]) c of
        None \<Rightarrow> None
      | Some d \<Rightarrow> digitsVal (10 * acc + d) cs)"

definition decimal :: "string \<Rightarrow> int option" where
  "decimal s =
     (case s of
        [] \<Rightarrow> None
      | c # cs \<Rightarrow>
          if c = CHR ''-'' then (if cs = [] then None else map_option (\<lambda>n. - int n) (digitsVal 0 cs))
          else map_option int (digitsVal 0 s))"

text \<open>The configuration file of the repository's tests.\<close>

definition baseConfig :: "(string \<times> any) list" where
  "baseConfig =
    [(''app'', AMap [(''name'', AStr ''ConfigAppName''), (''version'', AStr ''1.0.0''),
       (''environment'', AStr ''production'')]),
     (''server'', AMap [(''host'', AStr ''localhost''), (''port'', AInt 8080), (''timeout'', AInt 30)]),
     (''database'', AMap [(''host'', AStr ''db.local''), (''port'', AInt 5432),
       (''username'', AStr ''user''), (''password'', AStr ''password''), (''name'', AStr ''dbname'')]),
     (''logging'', AMap [(''level'', AStr ''info''), (''format'', AStr ''json'')])]"

section \<open>Unmarshalling into the struct\<close>

text \<open>
  viper decodes the settings with mapstructure, weakly typed, and
  \<^verbatim>\<open>UnmarshalExact\<close> adds \<^verbatim>\<open>ErrorUnused\<close>: a key of the input that no field takes is an
  error. mapstructure collects its errors and fails when there is one. The errors, by
  kind, with the dotted name of the field they are about:
\<close>

datatype DecodeError =
    Unconvertible key string any
  | CannotParse key string
  | ExpectedMap key any
  | InvalidKeys key "string list"

text \<open>
  Decoding into a string and into an int. Weakly typed input turns a bool into
  \<^verbatim>\<open>"1"\<close> or \<^verbatim>\<open>"0"\<close> and a number into its decimal text for a string, and parses a
  string (the empty one as \<^verbatim>\<open>"0"\<close>) for an int; nil leaves the field at its zero
  value. \<^verbatim>\<open>strconv.ParseInt(s, 0, 64)\<close> is the parameter \<open>parse\<close>.
\<close>

fun decodeString :: "key \<Rightarrow> any \<Rightarrow> DecodeError list \<times> string" where
  "decodeString name (AStr s) = ([], s)"
| "decodeString name (ABool b) = ([], if b then ''1'' else ''0'')"
| "decodeString name (AInt i) = ([], itoa i)"
| "decodeString name ANil = ([], '''')"
| "decodeString name data = ([Unconvertible name ''string'' data], '''')"

fun decodeInt :: "(string \<Rightarrow> int option) \<Rightarrow> key \<Rightarrow> any \<Rightarrow> DecodeError list \<times> int" where
  "decodeInt parse name (AInt i) = ([], i)"
| "decodeInt parse name (ABool b) = ([], if b then 1 else 0)"
| "decodeInt parse name (AStr s) =
     (case parse (if s = '''' then ''0'' else s) of
        Some i \<Rightarrow> ([], i)
      | None \<Rightarrow> ([CannotParse name s], 0))"
| "decodeInt parse name ANil = ([], 0)"
| "decodeInt parse name data = ([Unconvertible name ''int'' data], 0)"

text \<open>
  Decoding a struct from a map: every field looks its \<^verbatim>\<open>mapstructure\<close> name up, a
  missing key leaving the zero value; the keys that no field took are reported (in
  mapstructure sorted, here in the order of the map). Anything but a map or nil is
  an error.
\<close>

definition unusedKeys :: "key \<Rightarrow> string list \<Rightarrow> (string \<times> any) list \<Rightarrow> DecodeError list" where
  "unusedKeys name names m =
     (case filter (\<lambda>k. k \<notin> set names) (remdups (map fst m)) of
        [] \<Rightarrow> []
      | ks \<Rightarrow> [InvalidKeys name ks])"

definition decodeStruct ::
  "key \<Rightarrow> 'a \<Rightarrow> string list \<Rightarrow> ((string \<times> any) list \<Rightarrow> DecodeError list \<times> 'a) \<Rightarrow> any
     \<Rightarrow> DecodeError list \<times> 'a" where
  "decodeStruct name zero names fromMap data =
     (case data of
        AMap m \<Rightarrow> (case fromMap m of (errs, x) \<Rightarrow> (errs @ unusedKeys name names m, x))
      | ANil \<Rightarrow> ([], zero)
      | _ \<Rightarrow> ([ExpectedMap name data], zero))"

definition decodeAppConfig :: "key \<Rightarrow> any \<Rightarrow> DecodeError list \<times> AppConfig" where
  "decodeAppConfig name =
     decodeStruct name \<lparr> Name = '''', Version = '''', Environment = '''' \<rparr>
       [''name'', ''version'', ''environment'']
       (\<lambda>m. case decodeString (name @ [''name'']) (index m ''name'') of (e1, x1) \<Rightarrow>
             case decodeString (name @ [''version'']) (index m ''version'') of (e2, x2) \<Rightarrow>
             case decodeString (name @ [''environment'']) (index m ''environment'') of (e3, x3) \<Rightarrow>
               (e1 @ e2 @ e3, \<lparr> Name = x1, Version = x2, Environment = x3 \<rparr>))"

definition decodeServerConfig :: "(string \<Rightarrow> int option) \<Rightarrow> key \<Rightarrow> any \<Rightarrow> DecodeError list \<times> ServerConfig" where
  "decodeServerConfig parse name =
     decodeStruct name \<lparr> Host = '''', Port = 0, Timeout = 0 \<rparr>
       [''host'', ''port'', ''timeout'']
       (\<lambda>m. case decodeString (name @ [''host'']) (index m ''host'') of (e1, x1) \<Rightarrow>
             case decodeInt parse (name @ [''port'']) (index m ''port'') of (e2, x2) \<Rightarrow>
             case decodeInt parse (name @ [''timeout'']) (index m ''timeout'') of (e3, x3) \<Rightarrow>
               (e1 @ e2 @ e3, \<lparr> Host = x1, Port = x2, Timeout = x3 \<rparr>))"

definition decodeDatabaseConfig :: "(string \<Rightarrow> int option) \<Rightarrow> key \<Rightarrow> any \<Rightarrow> DecodeError list \<times> DatabaseConfig" where
  "decodeDatabaseConfig parse name =
     decodeStruct name \<lparr> DbHost = '''', DbPort = 0, Username = '''', Password = '''', DbName = '''' \<rparr>
       [''host'', ''port'', ''username'', ''password'', ''name'']
       (\<lambda>m. case decodeString (name @ [''host'']) (index m ''host'') of (e1, x1) \<Rightarrow>
             case decodeInt parse (name @ [''port'']) (index m ''port'') of (e2, x2) \<Rightarrow>
             case decodeString (name @ [''username'']) (index m ''username'') of (e3, x3) \<Rightarrow>
             case decodeString (name @ [''password'']) (index m ''password'') of (e4, x4) \<Rightarrow>
             case decodeString (name @ [''name'']) (index m ''name'') of (e5, x5) \<Rightarrow>
               (e1 @ e2 @ e3 @ e4 @ e5,
                \<lparr> DbHost = x1, DbPort = x2, Username = x3, Password = x4, DbName = x5 \<rparr>))"

definition decodeLoggingConfig :: "key \<Rightarrow> any \<Rightarrow> DecodeError list \<times> LoggingConfig" where
  "decodeLoggingConfig name =
     decodeStruct name \<lparr> Level = '''', Format = '''' \<rparr>
       [''level'', ''format'']
       (\<lambda>m. case decodeString (name @ [''level'']) (index m ''level'') of (e1, x1) \<Rightarrow>
             case decodeString (name @ [''format'']) (index m ''format'') of (e2, x2) \<Rightarrow>
               (e1 @ e2, \<lparr> Level = x1, Format = x2 \<rparr>))"

definition zeroConfig :: Config where
  "zeroConfig =
     \<lparr> App = \<lparr> Name = '''', Version = '''', Environment = '''' \<rparr>,
       Server = \<lparr> Host = '''', Port = 0, Timeout = 0 \<rparr>,
       Database = \<lparr> DbHost = '''', DbPort = 0, Username = '''', Password = '''', DbName = '''' \<rparr>,
       Logging = \<lparr> Level = '''', Format = '''' \<rparr> \<rparr>"

definition decodeConfig :: "(string \<Rightarrow> int option) \<Rightarrow> any \<Rightarrow> DecodeError list \<times> Config" where
  "decodeConfig parse =
     decodeStruct [] zeroConfig
       [''app'', ''server'', ''database'', ''logging'']
       (\<lambda>m. case decodeAppConfig [''app''] (index m ''app'') of (e1, x1) \<Rightarrow>
             case decodeServerConfig parse [''server''] (index m ''server'') of (e2, x2) \<Rightarrow>
             case decodeDatabaseConfig parse [''database''] (index m ''database'') of (e3, x3) \<Rightarrow>
             case decodeLoggingConfig [''logging''] (index m ''logging'') of (e4, x4) \<Rightarrow>
               (e1 @ e2 @ e3 @ e4,
                \<lparr> App = x1, Server = x2, Database = x3, Logging = x4 \<rparr>))"

text \<open>
  \<^verbatim>\<open>v.UnmarshalExact(&cfg)\<close>: the settings of all keys, decoded; an error when the
  decoder reported one.
\<close>

definition UnmarshalExact ::
  "(string \<Rightarrow> int option) \<Rightarrow> key list \<Rightarrow> FlagSet \<Rightarrow> Env \<Rightarrow> Viper \<Rightarrow> DecodeError list + Config" where
  "UnmarshalExact parse ks fs env vp =
     (case decodeConfig parse (AMap (getSettings fs env vp ks)) of
        ([], cfg) \<Rightarrow> Inr cfg
      | (errs, cfg) \<Rightarrow> Inl errs)"

section \<open>Validation: the struct tags and the validator\<close>

text \<open>
  The tags of the \<^verbatim>\<open>validate\<close> key that the structs carry, parsed:
  \<^verbatim>\<open>required\<close>, \<^verbatim>\<open>omitempty\<close>, \<^verbatim>\<open>oneof=...\<close> with its space-separated
  parameter split into words, \<^verbatim>\<open>gte=N\<close> and \<^verbatim>\<open>lte=N\<close>.
\<close>

datatype tag = Required | OmitEmpty | OneOf "string list" | Gte int | Lte int

fun unwords :: "string list \<Rightarrow> string" where
  "unwords [] = ''''"
| "unwords [w] = w"
| "unwords (w # ws) = w @ '' '' @ unwords ws"

fun tagName :: "tag \<Rightarrow> string" where
  "tagName Required = ''required''"
| "tagName OmitEmpty = ''omitempty''"
| "tagName (OneOf ws) = ''oneof''"
| "tagName (Gte n) = ''gte''"
| "tagName (Lte n) = ''lte''"

fun tagParam :: "tag \<Rightarrow> string" where
  "tagParam Required = ''''"
| "tagParam OmitEmpty = ''''"
| "tagParam (OneOf ws) = unwords ws"
| "tagParam (Gte n) = itoa n"
| "tagParam (Lte n) = itoa n"

text \<open>
  A struct as the validator sees it by reflection: its fields in declaration order, a
  field being a string or an int with its tags, or a nested struct. The only tag the
  source puts on a struct-typed field is \<^verbatim>\<open>required\<close> (on \<^verbatim>\<open>Config.App\<close>), so a nested
  field records just whether it carries that tag.
\<close>

datatype field =
    StringField string "tag list" string
  | IntField string "tag list" int
  | StructField string bool "field list"

definition AppConfig_fields :: "AppConfig \<Rightarrow> field list" where
  "AppConfig_fields a =
     [StringField ''Name'' [Required] (Name a),
      StringField ''Version'' [] (Version a),
      StringField ''Environment'' [OmitEmpty, OneOf [''development'', ''staging'', ''production'']]
        (Environment a)]"

definition ServerConfig_fields :: "ServerConfig \<Rightarrow> field list" where
  "ServerConfig_fields s =
     [StringField ''Host'' [] (Host s),
      IntField ''Port'' [Gte 1024, Lte 9000] (Port s),
      IntField ''Timeout'' [] (Timeout s)]"

definition DatabaseConfig_fields :: "DatabaseConfig \<Rightarrow> field list" where
  "DatabaseConfig_fields d =
     [StringField ''Host'' [] (DbHost d),
      IntField ''Port'' [] (DbPort d),
      StringField ''Username'' [] (Username d),
      StringField ''Password'' [] (Password d),
      StringField ''Name'' [] (DbName d)]"

definition LoggingConfig_fields :: "LoggingConfig \<Rightarrow> field list" where
  "LoggingConfig_fields l =
     [StringField ''Level'' [] (Level l),
      StringField ''Format'' [] (Format l)]"

definition Config_fields :: "'a Config_scheme \<Rightarrow> field list" where
  "Config_fields c =
     [StructField ''App'' True (AppConfig_fields (App c)),
      StructField ''Server'' False (ServerConfig_fields (Server c)),
      StructField ''Database'' False (DatabaseConfig_fields (Database c)),
      StructField ''Logging'' False (LoggingConfig_fields (Logging c))]"

text \<open>
  \<^verbatim>\<open>validator.FieldError\<close>, with the accessors \<^verbatim>\<open>validateConfig\<close> reads.
\<close>

datatype fieldValue = StringVal string | IntVal int

record FieldError =
  Namespace :: string
  Field :: string
  Tag :: string
  Value :: fieldValue
  Param :: string

text \<open>
  The validator's checks on a string and on an int. \<^verbatim>\<open>required\<close> and
  \<^verbatim>\<open>omitempty\<close> ask whether the field differs from its zero value; \<^verbatim>\<open>oneof\<close> compares the
  string, or the decimal form of the int, with the words of its parameter;
  \<^verbatim>\<open>gte\<close> and \<^verbatim>\<open>lte\<close> compare an int with the bound and a string by its length (the
  source puts them on an int only).
\<close>

fun checkString :: "tag \<Rightarrow> string \<Rightarrow> bool" where
  "checkString Required s = (s \<noteq> '''')"
| "checkString OmitEmpty s = True"
| "checkString (OneOf ws) s = (s \<in> set ws)"
| "checkString (Gte n) s = (n \<le> int (length s))"
| "checkString (Lte n) s = (int (length s) \<le> n)"

fun checkInt :: "tag \<Rightarrow> int \<Rightarrow> bool" where
  "checkInt Required i = (i \<noteq> 0)"
| "checkInt OmitEmpty i = True"
| "checkInt (OneOf ws) i = (itoa i \<in> set ws)"
| "checkInt (Gte n) i = (n \<le> i)"
| "checkInt (Lte n) i = (i \<le> n)"

text \<open>
  The tags of one field run in order. \<^verbatim>\<open>omitempty\<close> ends the run without an error when
  the field has its zero value; the first tag that fails ends it with that tag's
  error, so a field yields at most one error.
\<close>

fun runString :: "string \<Rightarrow> string \<Rightarrow> tag list \<Rightarrow> string \<Rightarrow> FieldError list" where
  "runString ns name [] s = []"
| "runString ns name (OmitEmpty # ct) s = (if s = '''' then [] else runString ns name ct s)"
| "runString ns name (t # ct) s =
     (if checkString t s then runString ns name ct s
      else [\<lparr> Namespace = ns @ name, Field = name, Tag = tagName t, Value = StringVal s,
              Param = tagParam t \<rparr>])"

fun runInt :: "string \<Rightarrow> string \<Rightarrow> tag list \<Rightarrow> int \<Rightarrow> FieldError list" where
  "runInt ns name [] i = []"
| "runInt ns name (OmitEmpty # ct) i = (if i = 0 then [] else runInt ns name ct i)"
| "runInt ns name (t # ct) i =
     (if checkInt t i then runInt ns name ct i
      else [\<lparr> Namespace = ns @ name, Field = name, Tag = tagName t, Value = IntVal i,
              Param = tagParam t \<rparr>])"

text \<open>
  The traversal. \<^verbatim>\<open>validator.New()\<close> is called without options, so
  \<^verbatim>\<open>required\<close> on a struct that is not a pointer is skipped and the struct is validated
  field by field, whether it carries the tag or not. Errors are appended in the order
  the fields are declared.
\<close>

fun traverseField :: "string \<Rightarrow> field \<Rightarrow> FieldError list"
  and validateStruct :: "string \<Rightarrow> field list \<Rightarrow> FieldError list" where
  "traverseField ns (StringField name ct s) = runString ns name ct s"
| "traverseField ns (IntField name ct i) = runInt ns name ct i"
| "traverseField ns (StructField name required members) = validateStruct (ns @ name @ ''.'') members"
| "validateStruct ns [] = []"
| "validateStruct ns (f # fs) = traverseField ns f @ validateStruct ns fs"

text \<open>
  \<^verbatim>\<open>validate.Struct(cfg)\<close>: the errors of the whole Config, the empty list standing for
  a nil error.
\<close>

definition Struct :: "'a Config_scheme \<Rightarrow> FieldError list" where
  "Struct c = validateStruct ''Config.'' (Config_fields c)"

section \<open>Output\<close>

text \<open>What the program writes, line by line, to standard output and standard error.\<close>

record Out =
  stdout :: "string list"
  stderr :: "string list"

definition Println :: "string \<Rightarrow> Out \<Rightarrow> Out" where
  "Println s out = out\<lparr> stdout := stdout out @ [s] \<rparr>"

definition Eprintln :: "string \<Rightarrow> Out \<Rightarrow> Out" where
  "Eprintln s out = out\<lparr> stderr := stderr out @ [s] \<rparr>"

section \<open>initConfig\<close>

text \<open>
  \<^verbatim>\<open>ReadInConfig\<close> reads the file system, which is outside the program: \<open>fsys\<close> maps
  what viper was told to look for (the explicit file, or the search paths, name and
  type) to what reading it gives: the path found and the parsed map, the error
  \<^verbatim>\<open>ConfigFileNotFoundError\<close>, or another error with its text.
\<close>

datatype ReadResult =
    ReadOk string "(string \<times> any) list"
  | ConfigFileNotFoundError
  | ReadFailed string

type_synonym FileSystem = "string \<times> string list \<times> string \<times> string \<Rightarrow> ReadResult"

definition ReadInConfig :: "FileSystem \<Rightarrow> Viper \<Rightarrow> ReadResult \<times> Viper" where
  "ReadInConfig fsys vp =
     (case fsys (configFile vp, configPaths vp, configName vp, configType vp) of
        ReadOk path m \<Rightarrow> (ReadOk path m, vp\<lparr> configFile := path, config := m \<rparr>)
      | err \<Rightarrow> (err, vp))"

definition initConfig :: "Env \<Rightarrow> FileSystem \<Rightarrow> Globals \<Rightarrow> Out \<Rightarrow> Globals \<times> Out" where
  "initConfig env fsys g out =
     (let v1 =
            (if cfgFile g \<noteq> '''' then (viper g)\<lparr> configFile := cfgFile g \<rparr>
             else if Getenv env ''MYAPP_CONFIG'' \<noteq> ''''
               then (viper g)\<lparr> configFile := Getenv env ''MYAPP_CONFIG'' \<rparr>
             else (viper g)\<lparr> configPaths := configPaths (viper g) @ [''.''],
                               configName := ''config'', configType := ''yaml'' \<rparr>);
          v2 = v1\<lparr> envPrefix := ''MYAPP'', envKeyReplacer := Some (CHR ''.'', CHR ''_''),
                     automaticEnvApplied := True \<rparr>
      in case ReadInConfig fsys v2 of
           (ReadOk path m, v3) \<Rightarrow>
             (g\<lparr> viper := v3 \<rparr>, Println '''' (Println (''Using config file: '' @ configFile v3) out))
         | (ConfigFileNotFoundError, v3) \<Rightarrow>
             (g\<lparr> viper := v3 \<rparr>,
              Println ''No config file found, using flags and environment variables only'' out)
         | (ReadFailed err, v3) \<Rightarrow>
             (g\<lparr> viper := v3 \<rparr>,
              Eprintln '''' (Eprintln (''Error reading config file: '' @ err) out)))"

text \<open>
  What \<^verbatim>\<open>rootCmd.Execute()\<close> does before it calls \<^verbatim>\<open>Run\<close>: the package is
  initialised, cobra parses the command line, and the function registered with
  \<^verbatim>\<open>cobra.OnInitialize\<close> runs. \<open>Inl\<close> is a panic of \<^verbatim>\<open>init\<close> or a command line that
  cobra rejects.
\<close>

definition beforeRun :: "arg list \<Rightarrow> Env \<Rightarrow> FileSystem \<Rightarrow> string + Globals \<times> Out" where
  "beforeRun args env fsys =
     (case init of
        Inl p \<Rightarrow> Inl p
      | Inr g0 \<Rightarrow>
          (case ParseFlags args g0 of
             Inl e \<Rightarrow> Inl e
           | Inr g1 \<Rightarrow> Inr (initConfig env fsys g1 \<lparr> stdout = [], stderr = [] \<rparr>)))"

section \<open>validateConfig and loadAndValidateConfig\<close>

text \<open>
  The errors \<^verbatim>\<open>loadAndValidateConfig\<close> returns: the wrapped error of
  \<^verbatim>\<open>UnmarshalExact\<close>, or the validator's \<^verbatim>\<open>ValidationErrors\<close>. (The validator's other
  error, for an argument that is not a struct, cannot arise: the argument is a
  \<^verbatim>\<open>*config.Config\<close>.)
\<close>

datatype error = UnmarshalError "DecodeError list" | ValidationErrors "FieldError list"

text \<open>\<^verbatim>\<open>%v\<close> and \<^verbatim>\<open>%T\<close> of a field's value.\<close>

fun showValue :: "fieldValue \<Rightarrow> string" where
  "showValue (StringVal s) = s"
| "showValue (IntVal i) = itoa i"

fun typeName :: "fieldValue \<Rightarrow> string" where
  "typeName (StringVal s) = ''string''"
| "typeName (IntVal i) = ''int''"

text \<open>The bullet of the hint lines, U+2022 in UTF-8.\<close>

definition bullet :: string where
  "bullet = [char_of (0xE2 :: nat), char_of (0x80 :: nat), char_of (0xA2 :: nat)]"

text \<open>The \<^verbatim>\<open>switch tag\<close> of \<^verbatim>\<open>validateConfig\<close>: the lines that say what was expected.\<close>

definition expected :: "string \<Rightarrow> string \<Rightarrow> string \<Rightarrow> string list" where
  "expected tg fld param =
     (if tg = ''required'' then
        ''    Expected: non-empty value'' #
        (if fld = ''Name'' then
           [''    Hint: Application name is mandatory. Provide it via:'',
            ''      '' @ bullet @ '' Flag: --app-name or -n'',
            ''      '' @ bullet @ '' Environment variable: MYAPP_APP_NAME'',
            ''      '' @ bullet @ '' Config file: app.name'']
         else [])
      else if tg = ''min'' then [''    Expected: minimum value of '' @ param]
      else if tg = ''max'' then [''    Expected: maximum value of '' @ param]
      else if tg = ''lte'' then [''    Expected: value less than or equal to '' @ param]
      else if tg = ''gte'' then [''    Expected: value greater than or equal to '' @ param]
      else if tg = ''lt'' then [''    Expected: value less than '' @ param]
      else if tg = ''gt'' then [''    Expected: value greater than '' @ param]
      else if tg = ''oneof'' then [''    Expected: one of ['' @ param @ '']'']
      else if tg = ''email'' then [''    Expected: valid email address format'']
      else if tg = ''url'' then [''    Expected: valid URL format'']
      else if tg = ''len'' then [''    Expected: length of '' @ param]
      else if tg = ''eq'' then [''    Expected: value equal to '' @ param]
      else if tg = ''ne'' then [''    Expected: value not equal to '' @ param]
      else [''    Validation rule: '' @ tg @
            (if param \<noteq> '''' then '' (parameter: '' @ param @ '')'' else '''')])"

definition report :: "FieldError \<Rightarrow> string list" where
  "report fieldErr =
     [''  - Field '' @ [CHR 0x27] @ Namespace fieldErr @ [CHR 0x27] @ '' validation failed'',
      ''    Current value: '' @ showValue (Value fieldErr) @
        '' (type: '' @ typeName (Value fieldErr) @ '')'']
     @ expected (Tag fieldErr) (Field fieldErr) (Param fieldErr)"

text \<open>
  \<^verbatim>\<open>validateConfig\<close>: every error of the validator is reported on standard error, in
  the validator's order, and the error is returned; a valid struct returns nil and
  prints nothing.
\<close>

definition validateConfig :: "Config \<Rightarrow> Out \<Rightarrow> error option \<times> Out" where
  "validateConfig cfg out =
     (case Struct cfg of
        [] \<Rightarrow> (None, out)
      | validationErrors \<Rightarrow>
          (Some (ValidationErrors validationErrors),
           out\<lparr> stderr := stderr out @ ''Configuration validation failed:'' #
                            concat (map report validationErrors) \<rparr>))"

text \<open>
  \<^verbatim>\<open>loadAndValidateConfig\<close>: unmarshal, return at once on an error; else validate, and
  return the struct only when validation passed.
\<close>

definition loadAndValidateConfig ::
  "(string \<Rightarrow> int option) \<Rightarrow> key list \<Rightarrow> Env \<Rightarrow> Globals \<Rightarrow> Out \<Rightarrow> (error + Config) \<times> Out" where
  "loadAndValidateConfig parse ks env g out =
     (case UnmarshalExact parse ks (flags g) env (viper g) of
        Inl err \<Rightarrow> (Inl (UnmarshalError err), out)
      | Inr cfg \<Rightarrow>
          (case validateConfig cfg out of
             (Some err, out') \<Rightarrow> (Inl err, out')
           | (None, out') \<Rightarrow> (Inr cfg, out')))"

section \<open>The state in which the command runs\<close>

text \<open>
  The bindings that \<^verbatim>\<open>init\<close> leaves in viper, and what parsing the command line and
  \<^verbatim>\<open>initConfig\<close> keep of them: the bound keys, the name and type of every flag, the
  prefix and the replacer of the environment variables.
\<close>

lemma splitKey_eval:
  "splitKey [] ''app.name'' = [''app'', ''name'']"
  "splitKey [] ''app.version'' = [''app'', ''version'']"
  "splitKey [] ''app.environment'' = [''app'', ''environment'']"
  "splitKey [] ''server.host'' = [''server'', ''host'']"
  "splitKey [] ''server.port'' = [''server'', ''port'']"
  "splitKey [] ''server.timeout'' = [''server'', ''timeout'']"
  "splitKey [] ''database.host'' = [''database'', ''host'']"
  "splitKey [] ''database.port'' = [''database'', ''port'']"
  "splitKey [] ''database.username'' = [''database'', ''username'']"
  "splitKey [] ''database.password'' = [''database'', ''password'']"
  "splitKey [] ''database.name'' = [''database'', ''name'']"
  "splitKey [] ''logging.level'' = [''logging'', ''level'']"
  "splitKey [] ''logging.format'' = [''logging'', ''format'']"
  by simp_all

definition bindings :: "(key \<times> string) list" where
  "bindings =
        [([''app'', ''name''], ''app-name''),
         ([''app'', ''version''], ''app-version''),
         ([''app'', ''environment''], ''app-environment''),
         ([''server'', ''host''], ''server-host''),
         ([''server'', ''port''], ''server-port''),
         ([''server'', ''timeout''], ''server-timeout''),
         ([''database'', ''host''], ''db-host''),
         ([''database'', ''port''], ''db-port''),
         ([''database'', ''username''], ''db-username''),
         ([''database'', ''password''], ''db-password''),
         ([''database'', ''name''], ''db-name''),
         ([''logging'', ''level''], ''log-level''),
         ([''logging'', ''format''], ''log-format'')]"

text \<open>The flag set that \<^verbatim>\<open>init\<close> builds: every flag at its default, none changed.\<close>

definition initialFlags :: FlagSet where
  "initialFlags =
        [newFlag ''app-name'' ''n'' ''Application name'' (StringValue ''''),
         newFlag ''app-version'' ''v'' ''Application version'' (StringValue ''''),
         newFlag ''app-environment'' ''e'' ''Application environment'' (StringValue ''''),
         newFlag ''server-host'' '''' ''Server host'' (StringValue ''''),
         newFlag ''server-port'' ''p'' ''Server port'' (IntValue 0),
         newFlag ''server-timeout'' ''t'' ''Server timeout in seconds'' (IntValue 0),
         newFlag ''db-host'' '''' ''Database host'' (StringValue ''''),
         newFlag ''db-port'' '''' ''Database port'' (IntValue 0),
         newFlag ''db-username'' ''u'' ''Database username'' (StringValue ''''),
         newFlag ''db-password'' '''' ''Database password'' (StringValue ''''),
         newFlag ''db-name'' ''d'' ''Database name'' (StringValue ''''),
         newFlag ''log-level'' ''l'' ''Logging level'' (StringValue ''''),
         newFlag ''log-format'' ''f'' ''Logging format'' (StringValue '''')]"

lemma init_value:
  "init = Inr \<lparr> cfgFile = '''', viper = New\<lparr> pflags := bindings \<rparr>, flags = initialFlags \<rparr>"
  unfolding init_def bindings_def initialFlags_def
  by (simp add: bindStringFlag_def bindIntFlag_def bindFlag_def AddFlag_def Lookup_def
      BindPFlag_def New_def newFlag_def splitKey_eval del: splitKey.simps)

text \<open>
  What parsing the command line keeps of a flag: its name, the type of its value and
  its default; and a flag that was not changed still holds its default.
\<close>

definition signature :: "FlagSet \<Rightarrow> (string \<times> string \<times> FlagValue) list" where
  "signature fs = map (\<lambda>f. (FlagName f, ValueType (FlagVal f), DefValue f)) fs"

definition pristine :: "Flag \<Rightarrow> bool" where
  "pristine f \<longleftrightarrow> Changed f \<or> FlagVal f = DefValue f"

lemma setFlag_signature:
  "setFlag n val fs = Inr fs' \<Longrightarrow>
     signature fs' = signature fs \<and> (list_all pristine fs \<longrightarrow> list_all pristine fs')"
  by (induction fs arbitrary: fs')
    (auto simp: signature_def pristine_def split: if_splits sum.splits)

lemma parseArg_state:
  "parseArg a g = Inr g' \<Longrightarrow>
     viper g' = viper g \<and> signature (flags g') = signature (flags g)
     \<and> (list_all pristine (flags g) \<longrightarrow> list_all pristine (flags g'))"
  by (cases a) (auto split: sum.splits dest: setFlag_signature)

lemma ParseFlags_state:
  "ParseFlags args g = Inr g' \<Longrightarrow>
     viper g' = viper g \<and> signature (flags g') = signature (flags g)
     \<and> (list_all pristine (flags g) \<longrightarrow> list_all pristine (flags g'))"
  unfolding ParseFlags_def
proof (induction args arbitrary: g)
  case Nil
  then show ?case by simp
next
  case (Cons a args)
  then obtain g1 where a: "parseArg a g = Inr g1" and r: "steps (map parseArg args) g1 = Inr g'"
    by (auto split: sum.splits)
  from Cons.IH [OF r] parseArg_state [OF a] show ?case by simp
qed

lemma initConfig_state:
  "initConfig env fsys g out = (g', out') \<Longrightarrow>
     flags g' = flags g \<and> pflags (viper g') = pflags (viper g)
     \<and> envPrefix (viper g') = ''MYAPP'' \<and> envKeyReplacer (viper g') = Some (CHR ''.'', CHR ''_'')
     \<and> automaticEnvApplied (viper g') \<and> allowEmptyEnv (viper g') = allowEmptyEnv (viper g)"
  by (auto simp: initConfig_def ReadInConfig_def Let_def split: ReadResult.splits if_splits prod.splits)

text \<open>The flags by name, with the type and the default each was defined with.\<close>

definition flagSignature :: "(string \<times> string \<times> FlagValue) list" where
  "flagSignature =
     [(''app-name'', ''string'', StringValue ''''), (''app-version'', ''string'', StringValue ''''),
      (''app-environment'', ''string'', StringValue ''''), (''server-host'', ''string'', StringValue ''''),
      (''server-port'', ''int'', IntValue 0), (''server-timeout'', ''int'', IntValue 0),
      (''db-host'', ''string'', StringValue ''''), (''db-port'', ''int'', IntValue 0),
      (''db-username'', ''string'', StringValue ''''), (''db-password'', ''string'', StringValue ''''),
      (''db-name'', ''string'', StringValue ''''), (''log-level'', ''string'', StringValue ''''),
      (''log-format'', ''string'', StringValue '''')]"

text \<open>The keys bound to an int flag: those of the int fields of the struct.\<close>

definition intKeys :: "key list" where
  "intKeys = [[''server'', ''port''], [''server'', ''timeout''], [''database'', ''port'']]"

text \<open>The state in which cobra calls \<^verbatim>\<open>Run\<close>, as far as the lookup of a key depends on it.\<close>

definition ready :: "Globals \<Rightarrow> bool" where
  "ready g \<longleftrightarrow>
     pflags (viper g) = bindings
     \<and> signature (flags g) = flagSignature
     \<and> list_all pristine (flags g)
     \<and> envPrefix (viper g) = ''MYAPP'' \<and> envKeyReplacer (viper g) = Some (CHR ''.'', CHR ''_'')
     \<and> automaticEnvApplied (viper g) \<and> \<not> allowEmptyEnv (viper g)"

lemma beforeRun_ready:
  assumes "beforeRun args env fsys = Inr (g, out)"
  shows "ready g"
proof -
  from assms obtain g0 g1 where i: "init = Inr g0" and p: "ParseFlags args g0 = Inr g1"
    and c: "initConfig env fsys g1 \<lparr> stdout = [], stderr = [] \<rparr> = (g, out)"
    by (auto simp: beforeRun_def split: sum.splits)
  from i have g0: "pflags (viper g0) = bindings" "\<not> allowEmptyEnv (viper g0)"
    "signature (flags g0) = flagSignature" "list_all pristine (flags g0)"
    unfolding init_value
    by (auto simp: New_def signature_def newFlag_def flagSignature_def initialFlags_def pristine_def)
  from ParseFlags_state [OF p] initConfig_state [OF c] g0 show ?thesis
    by (simp add: ready_def)
qed

section \<open>Bound keys\<close>

text \<open>
  The name of the environment variable of a key as the spec gives it: the prefix, then
  every segment in upper case after an underscore.
\<close>

definition specEnvName :: "key \<Rightarrow> string" where
  "specEnvName k = ''MYAPP'' @ concat (map (\<lambda>seg. CHR ''_'' # ToUpper seg) k)"

text \<open>The top-level groups of the struct, by their \<^verbatim>\<open>mapstructure\<close> names.\<close>

definition groups :: "string list" where
  "groups = [''app'', ''server'', ''database'', ''logging'']"

lemma Lookup_signature:
  "map_of (signature fs) n = Some (t, d) \<Longrightarrow>
     \<exists>f. Lookup fs n = Some f \<and> f \<in> set fs \<and> FlagName f = n \<and> ValueType (FlagVal f) = t
       \<and> DefValue f = d"
  by (induction fs) (auto simp: signature_def Lookup_def split: if_splits)

lemma bindings_table:
  "list_all (\<lambda>(k, n). map_of bindings k = Some n
      \<and> map_of flagSignature n =
          Some (if k \<in> set intKeys then (''int'', IntValue 0) else (''string'', StringValue ''''))
      \<and> length k = 2 \<and> hd k \<in> set groups
      \<and> \<not> isPathShadowedInFlatMap k (map fst bindings)) bindings"
  by (simp add: bindings_def flagSignature_def intKeys_def groups_def isPathShadowedInFlatMap_def)

lemma envName_table:
  "list_all (\<lambda>(k, n).
       Replace (Some (CHR ''.'', CHR ''_'')) (ToUpper (''MYAPP'' @ ''_'' @ joinKey k)) = specEnvName k
     \<and> Replace (Some (CHR ''.'', CHR ''_'')) (ToUpper (''MYAPP'' @ ''_'' @ joinKey [hd k])) = specEnvName [hd k])
     bindings"
  by (simp add: bindings_def specEnvName_def Replace_def ToUpper_def upper_def)

lemmas bound_facts = bindings_table [unfolded list_all_iff, rule_format]
lemmas bound_env = envName_table [unfolded list_all_iff, rule_format]

lemma ready_boundFlag:
  assumes "ready g" "(k, n) \<in> set bindings"
  shows "\<exists>f. boundFlag (flags g) (viper g) k = Some f \<and> Lookup (flags g) n = Some f
           \<and> ValueType (FlagVal f) = (if k \<in> set intKeys then ''int'' else ''string'')
           \<and> (Changed f \<or> FlagVal f = (if k \<in> set intKeys then IntValue 0 else StringValue ''''))"
proof -
  from bound_facts [OF assms(2)] have m: "map_of bindings k = Some n"
    and s: "map_of flagSignature n =
      Some (if k \<in> set intKeys then (''int'', IntValue 0) else (''string'', StringValue ''''))"
    by auto
  from s assms(1) have "map_of (signature (flags g)) n =
      Some (if k \<in> set intKeys then ''int'' else ''string'',
            if k \<in> set intKeys then IntValue 0 else StringValue '''')"
    by (simp add: ready_def)
  from Lookup_signature [OF this] obtain f where f: "Lookup (flags g) n = Some f" "f \<in> set (flags g)"
    "ValueType (FlagVal f) = (if k \<in> set intKeys then ''int'' else ''string'')"
    "DefValue f = (if k \<in> set intKeys then IntValue 0 else StringValue '''')"
    by blast
  from assms(1) f(2) have "pristine f" by (auto simp: ready_def list_all_iff)
  with f m assms(1) show ?thesis
    by (auto simp: boundFlag_def ready_def pristine_def)
qed

lemma ready_getEnv:
  assumes "ready g" "(k, n) \<in> set bindings"
  shows "getEnv env (viper g) (mergeWithEnvPrefix (viper g) (joinKey k)) =
           (case env (specEnvName k) of None \<Rightarrow> None | Some e \<Rightarrow> if e = '''' then None else Some e)"
    and "isPathShadowedInAutoEnv env (viper g) k =
           (case env (specEnvName [hd k]) of None \<Rightarrow> False | Some e \<Rightarrow> e \<noteq> '''')"
proof -
  from assms(1) have r: "envPrefix (viper g) = ''MYAPP''"
    "envKeyReplacer (viper g) = Some (CHR ''.'', CHR ''_'')" "\<not> allowEmptyEnv (viper g)"
    by (simp_all add: ready_def)
  from bound_env [OF assms(2)] have
    e1: "Replace (Some (CHR ''.'', CHR ''_'')) (ToUpper (''MYAPP'' @ ''_'' @ joinKey k)) = specEnvName k"
    and e2: "Replace (Some (CHR ''.'', CHR ''_'')) (ToUpper (''MYAPP'' @ ''_'' @ joinKey [hd k])) = specEnvName [hd k]"
    by auto
  show "getEnv env (viper g) (mergeWithEnvPrefix (viper g) (joinKey k)) =
           (case env (specEnvName k) of None \<Rightarrow> None | Some e \<Rightarrow> if e = '''' then None else Some e)"
    using e1 by (simp add: getEnv_def mergeWithEnvPrefix_def r split: option.split)
  from bound_facts [OF assms(2)] obtain grp leaf where k: "k = [grp, leaf]"
    by (cases k; cases "tl k") auto
  show "isPathShadowedInAutoEnv env (viper g) k =
           (case env (specEnvName [hd k]) of None \<Rightarrow> False | Some e \<Rightarrow> e \<noteq> '''')"
    using e2 unfolding k
    by (simp add: isPathShadowedInAutoEnv_def getEnv_def mergeWithEnvPrefix_def r split: option.split)
qed

lemma find_bound:
  assumes "ready g" "(k, n) \<in> set bindings" "boundFlag (flags g) (viper g) k = Some f"
  shows "find (flags g) env (viper g) k =
     (if Changed f then flagAny (FlagVal f)
      else case getEnv env (viper g) (mergeWithEnvPrefix (viper g) (joinKey k)) of
          Some e \<Rightarrow> AStr e
        | None \<Rightarrow>
            if isPathShadowedInAutoEnv env (viper g) k then ANil
            else if searchMap (config (viper g)) k \<noteq> ANil then searchMap (config (viper g)) k
            else if isPathShadowedInDeepMap k (config (viper g)) then ANil
            else flagAny (FlagVal f))"
proof -
  from bound_facts [OF assms(2)] have len: "1 < length k"
    and ns: "\<not> isPathShadowedInFlatMap k (map fst bindings)" by auto
  from assms(1) have p: "pflags (viper g) = bindings" and a: "automaticEnvApplied (viper g)"
    by (simp_all add: ready_def)
  show ?thesis
    using ns len
    by (simp add: find_def Let_def assms(3) p a split: option.split)
qed

section \<open>Settings at a key\<close>

text \<open>The map below a key of a map, empty when there is none.\<close>

definition subMap :: "(string \<times> any) list \<Rightarrow> string \<Rightarrow> (string \<times> any) list" where
  "subMap m a = (case map_of m a of Some (AMap m3) \<Rightarrow> m3 | _ \<Rightarrow> [])"

lemma searchMap_empty: "p \<noteq> [] \<Longrightarrow> searchMap [] p = ANil"
  by (cases p; cases "tl p") (auto simp: index_def)

lemma index_update: "index (AList.update k x m) k' = (if k' = k then x else index m k')"
  by (simp add: index_def update_conv')

lemma subMap_update:
  "subMap (AList.update a x m) a' = (if a' = a then (case x of AMap m3 \<Rightarrow> m3 | _ \<Rightarrow> []) else subMap m a')"
  by (simp add: subMap_def update_conv')

lemma deepSet_Cons2:
  "deepSet (a # b # p) x m = AList.update a (AMap (deepSet (b # p) x (subMap m a))) m"
  by (simp add: subMap_def split: option.split any.split)

lemma searchMap_Cons2: "searchMap m (a # c # p) = searchMap (subMap m a) (c # p)"
  by (simp add: subMap_def searchMap_empty split: option.split any.split)

lemma searchMap_deepSet_same: "k \<noteq> [] \<Longrightarrow> searchMap (deepSet k x m) k = x"
proof (induction k arbitrary: m rule: induct_list012)
  case 1
  then show ?case by simp
next
  case (2 a)
  show ?case by (simp add: index_update)
next
  case (3 a b p)
  then show ?case
    by (simp only: deepSet_Cons2 searchMap_Cons2 subMap_update) simp
qed

lemma searchMap_deepSet_other:
  "\<not> prefix k' k \<Longrightarrow> \<not> prefix k k' \<Longrightarrow> searchMap (deepSet k' x m) k = searchMap m k"
proof (induction k' arbitrary: m k rule: induct_list012)
  case 1
  then show ?case by simp
next
  case (2 b)
  then obtain a p where k: "k = a # p" by (cases k) auto
  with 2 have "a \<noteq> b" by (cases p) auto
  then show ?case unfolding k by (cases p) (simp_all add: index_update update_conv')
next
  case (3 b b' path)
  then obtain a p where k: "k = a # p" by (cases k) auto
  show ?case
  proof (cases "a = b")
    case False
    then show ?thesis unfolding k deepSet_Cons2
      by (cases p) (simp_all add: index_update update_conv')
  next
    case True
    with 3(3,4) k obtain c q where p: "p = c # q" by (cases p) auto
    from 3(3,4) k True have np: "\<not> prefix (b' # path) p" "\<not> prefix p (b' # path)" by auto
    from 3(2) [OF np] show ?thesis
      unfolding k True p by (simp only: deepSet_Cons2 searchMap_Cons2 subMap_update) simp
  qed
qed

text \<open>
  What the settings hold at a key after the fold over all keys, in whatever order: the
  value the key resolves to, provided no other key that resolves to a value is a
  prefix or an extension of it.
\<close>

lemma getSettings_other:
  assumes "\<forall>k' \<in> set ks. f k' = ANil \<or> (\<not> prefix k' k \<and> \<not> prefix k k')"
  shows "searchMap (fold (\<lambda>k m. if f k = ANil then m else deepSet k (f k) m) ks m0) k = searchMap m0 k"
  using assms
  by (induction ks arbitrary: m0) (auto simp: searchMap_deepSet_other)

lemma getSettings_same:
  assumes "k \<in> set ks" "k \<noteq> []" "f k \<noteq> ANil"
    and "\<forall>k' \<in> set ks. k' = k \<or> f k' = ANil \<or> (\<not> prefix k' k \<and> \<not> prefix k k')"
  shows "searchMap (fold (\<lambda>k m. if f k = ANil then m else deepSet k (f k) m) ks m0) k = f k"
  using assms
proof (induction ks arbitrary: m0)
  case Nil
  then show ?case by simp
next
  case (Cons a ks)
  show ?case
  proof (cases "k \<in> set ks")
    case True
    with Cons show ?thesis by simp
  next
    case False
    with Cons.prems have a: "a = k" by simp
    from False Cons.prems(4)
    have "\<forall>k' \<in> set ks. f k' = ANil \<or> (\<not> prefix k' k \<and> \<not> prefix k k')" by auto
    from getSettings_other [OF this] show ?thesis
      using Cons.prems(2,3) by (simp add: a searchMap_deepSet_same)
  qed
qed

lemma getSettings_lookup:
  assumes "k \<noteq> []"
    and "k \<in> set ks \<or> find fs env vp k = ANil"
    and "\<forall>k' \<in> set ks. k' = k \<or> find fs env vp k' = ANil \<or> (\<not> prefix k' k \<and> \<not> prefix k k')"
  shows "searchMap (getSettings fs env vp ks) k = find fs env vp k"
proof (cases "find fs env vp k = ANil")
  case True
  with assms(3) have "\<forall>k' \<in> set ks. find fs env vp k' = ANil \<or> (\<not> prefix k' k \<and> \<not> prefix k k')"
    by auto
  from getSettings_other [of ks "find fs env vp", OF this] True assms(1) show ?thesis
    by (simp add: getSettings_def searchMap_empty)
next
  case False
  with assms(2) have "k \<in> set ks" by simp
  from getSettings_same [of k ks "find fs env vp", OF this assms(1) False assms(3)]
  show ?thesis by (simp add: getSettings_def)
qed

section \<open>The keys viper lists\<close>

text \<open>
  A list of keys is clear of a key when every other key in it is neither a prefix nor
  an extension of it.
\<close>

definition clear :: "key \<Rightarrow> key list \<Rightarrow> bool" where
  "clear t ks \<longleftrightarrow> (\<forall>k \<in> set ks. k = t \<or> (\<not> prefix k t \<and> \<not> prefix t k))"

lemma clear_insert:
  "clear t (List.insert k ks) \<longleftrightarrow> (k = t \<or> (\<not> prefix k t \<and> \<not> prefix t k)) \<and> clear t ks"
  by (auto simp: clear_def)

lemma new_key:
  assumes "\<not> prefix [grp, leaf] pfx" "pfx = [] \<Longrightarrow> k \<noteq> grp"
  shows "pfx @ [k] = [grp, leaf]
         \<or> (\<not> prefix (pfx @ [k]) [grp, leaf] \<and> \<not> prefix [grp, leaf] (pfx @ [k]))"
proof (cases "pfx = []")
  case True
  with assms(2) show ?thesis by simp
next
  case False
  then show ?thesis using assms(1)
    by (cases pfx; cases "tl pfx") (auto simp: prefix_snoc)
qed

lemma flatten_clear:
  fixes grp leaf :: string
  defines "t \<equiv> [grp, leaf]"
  shows "t \<in> set shadow \<Longrightarrow> clear t shadow \<Longrightarrow> \<not> strict_prefix t pfx \<Longrightarrow>
           (pfx = [] \<Longrightarrow> \<forall>x. (grp, x) \<in> set m \<longrightarrow> (\<exists>m2. x = AMap m2)) \<Longrightarrow>
           t \<in> set (flattenAndMergeMap shadow m pfx) \<and> clear t (flattenAndMergeMap shadow m pfx)"
    and "t \<in> set shadow \<Longrightarrow> clear t shadow \<Longrightarrow> \<not> prefix t pfx \<Longrightarrow>
           (pfx = [] \<Longrightarrow> \<forall>x. (grp, x) \<in> set m \<longrightarrow> (\<exists>m2. x = AMap m2)) \<Longrightarrow>
           t \<in> set (flattenEntries shadow m pfx) \<and> clear t (flattenEntries shadow m pfx)"
  apply (induction shadow m pfx and shadow m pfx rule: flattenAndMergeMap_flattenEntries.induct)
  subgoal premises p for shadow m pfx
  proof (cases "pfx \<noteq> [] \<and> pfx \<in> set shadow")
    case True
    with p(2,3) show ?thesis by simp
  next
    case False
    have "\<not> prefix t pfx"
    proof
      assume "prefix t pfx"
      with p(4) have "pfx = t" by (auto simp: strict_prefix_def)
      with False p(2) show False by (simp add: t_def)
    qed
    from p(1) [OF False p(2,3) this p(5)] False show ?thesis by auto
  qed
  subgoal for shadow pfx
    by simp
  subgoal premises p for shadow k m2 rest pfx
  proof -
    have sp: "\<not> strict_prefix t (pfx @ [k])"
      using p(5) by (auto simp: strict_prefix_def prefix_snoc)
    have "t \<in> set (flattenAndMergeMap shadow m2 (pfx @ [k]))
        \<and> clear t (flattenAndMergeMap shadow m2 (pfx @ [k]))"
      by (rule p(1) [OF p(3,4) sp]) simp
    then show ?thesis
      using p(2) [OF _ _ p(5)] p(6) by auto
  qed
  subgoal premises p for shadow k va rest pfx
  proof -
    from p(5) have "pfx = [] \<Longrightarrow> k \<noteq> grp" by auto
    from new_key [OF p(4) [unfolded t_def] this] p(1) [OF _ _ p(4)] p(2,3,5)
    show ?thesis by (auto simp: clear_insert t_def)
  qed
  subgoal premises p for shadow k va rest pfx
  proof -
    from p(5) have "pfx = [] \<Longrightarrow> k \<noteq> grp" by auto
    from new_key [OF p(4) [unfolded t_def] this] p(1) [OF _ _ p(4)] p(2,3,5)
    show ?thesis by (auto simp: clear_insert t_def)
  qed
  subgoal premises p for shadow k va rest pfx
  proof -
    from p(5) have "pfx = [] \<Longrightarrow> k \<noteq> grp" by auto
    from new_key [OF p(4) [unfolded t_def] this] p(1) [OF _ _ p(4)] p(2,3,5)
    show ?thesis by (auto simp: clear_insert t_def)
  qed
  subgoal premises p for shadow k rest pfx
  proof -
    from p(5) have "pfx = [] \<Longrightarrow> k \<noteq> grp" by auto
    from new_key [OF p(4) [unfolded t_def] this] p(1) [OF _ _ p(4)] p(2,3,5)
    show ?thesis by (auto simp: clear_insert t_def)
  qed
  subgoal premises p for shadow k va rest pfx
  proof -
    from p(5) have "pfx = [] \<Longrightarrow> k \<noteq> grp" by auto
    from new_key [OF p(4) [unfolded t_def] this] p(1) [OF _ _ p(4)] p(2,3,5)
    show ?thesis by (auto simp: clear_insert t_def)
  qed
  done

lemma mergeFlatMap_bindings: "mergeFlatMap [] (map fst bindings) = rev (map fst bindings)"
  by (simp add: bindings_def)

lemma same_length_prefix: "length a = length b \<Longrightarrow> prefix a b \<Longrightarrow> a = b"
  by (auto simp: prefix_def)

lemma AllKeys_clear:
  assumes "ready g" "(k, n) \<in> set bindings"
    and "\<forall>x. (hd k, x) \<in> set (config (viper g)) \<longrightarrow> (\<exists>m2. x = AMap m2)"
  shows "k \<in> set (AllKeys (viper g)) \<and> clear k (AllKeys (viper g))"
proof -
  from bound_facts [OF assms(2)] obtain grp leaf where k: "k = [grp, leaf]"
    by (cases k; cases "tl k") auto
  have in0: "k \<in> set (rev (map fst bindings))"
    using assms(2) by force
  have "clear k (rev (map fst bindings))"
    unfolding clear_def
  proof
    fix k' assume "k' \<in> set (rev (map fst bindings))"
    then obtain n' where "(k', n') \<in> set bindings" by auto
    from bound_facts [OF this] bound_facts [OF assms(2)] have "length k' = length k" by auto
    then show "k' = k \<or> (\<not> prefix k' k \<and> \<not> prefix k k')"
      using same_length_prefix [of k' k] same_length_prefix [of k k'] by auto
  qed
  from flatten_clear(1) [of grp leaf "rev (map fst bindings)" "[]" "config (viper g)"]
    in0 this assms(3) assms(1)
  show ?thesis
    by (simp add: AllKeys_def ready_def mergeFlatMap_bindings k)
qed

lemma settings_at_bound:
  assumes "ready g" "(k, n) \<in> set bindings"
    and "\<forall>x. (hd k, x) \<in> set (config (viper g)) \<longrightarrow> (\<exists>m2. x = AMap m2)"
    and "set ks = set (AllKeys (viper g))"
  shows "searchMap (getSettings (flags g) env (viper g) ks) k = find (flags g) env (viper g) k"
proof -
  from bound_facts [OF assms(2)] have ne: "k \<noteq> []" by auto
  from AllKeys_clear [OF assms(1-3)] assms(4)
  have "k \<in> set ks" and "\<forall>k' \<in> set ks. k' = k \<or> (\<not> prefix k' k \<and> \<not> prefix k k')"
    by (auto simp: clear_def)
  then show ?thesis
    by (intro getSettings_lookup [OF ne]) auto
qed

section \<open>The fields of the decoded struct\<close>

text \<open>
  The fields of \<^verbatim>\<open>Config\<close> under their keys, as the \<^verbatim>\<open>mapstructure\<close> tags name them.
\<close>

definition fieldTable :: "Config \<Rightarrow> (key \<times> any) list" where
  "fieldTable c =
     [([''app'', ''name''], AStr (Name (App c))),
      ([''app'', ''version''], AStr (Version (App c))),
      ([''app'', ''environment''], AStr (Environment (App c))),
      ([''server'', ''host''], AStr (Host (Server c))),
      ([''server'', ''port''], AInt (Port (Server c))),
      ([''server'', ''timeout''], AInt (Timeout (Server c))),
      ([''database'', ''host''], AStr (DbHost (Database c))),
      ([''database'', ''port''], AInt (DbPort (Database c))),
      ([''database'', ''username''], AStr (Username (Database c))),
      ([''database'', ''password''], AStr (Password (Database c))),
      ([''database'', ''name''], AStr (DbName (Database c))),
      ([''logging'', ''level''], AStr (Level (Logging c))),
      ([''logging'', ''format''], AStr (Format (Logging c)))]"

text \<open>
  What decoding makes of the value found at a bound key: an int field parses it, a
  string field prints it; the errors come with it.
\<close>

definition coerce :: "(string \<Rightarrow> int option) \<Rightarrow> key \<Rightarrow> any \<Rightarrow> DecodeError list \<times> any" where
  "coerce parse k x =
     (if k \<in> set intKeys then map_prod id AInt (decodeInt parse k x)
      else map_prod id AStr (decodeString k x))"

lemma searchMap2: "searchMap m [a, b] = index (subMap m a) b"
  by (simp add: subMap_def index_def split: option.split any.split)

lemma subMap_index: "(case index m a of AMap m3 \<Rightarrow> m3 | _ \<Rightarrow> []) = subMap m a"
  by (simp add: subMap_def index_def split: option.split any.split)

lemma decodeApp_fields:
  assumes "decodeAppConfig [''app''] data = (errs, a)"
  shows "set (fst (coerce parse [''app'', ''name''] (index (case data of AMap m \<Rightarrow> m | _ \<Rightarrow> []) ''name''))) \<subseteq> set errs
      \<and> AStr (Name a) = snd (coerce parse [''app'', ''name''] (index (case data of AMap m \<Rightarrow> m | _ \<Rightarrow> []) ''name''))"
    and "set (fst (coerce parse [''app'', ''version''] (index (case data of AMap m \<Rightarrow> m | _ \<Rightarrow> []) ''version''))) \<subseteq> set errs
      \<and> AStr (Version a) = snd (coerce parse [''app'', ''version''] (index (case data of AMap m \<Rightarrow> m | _ \<Rightarrow> []) ''version''))"
    and "set (fst (coerce parse [''app'', ''environment''] (index (case data of AMap m \<Rightarrow> m | _ \<Rightarrow> []) ''environment''))) \<subseteq> set errs
      \<and> AStr (Environment a) = snd (coerce parse [''app'', ''environment''] (index (case data of AMap m \<Rightarrow> m | _ \<Rightarrow> []) ''environment''))"
  using assms
  by (auto simp: decodeAppConfig_def decodeStruct_def coerce_def intKeys_def index_def
      split: any.splits prod.splits)

lemma decodeServer_fields:
  assumes "decodeServerConfig parse [''server''] data = (errs, a)"
  shows "set (fst (coerce parse [''server'', ''host''] (index (case data of AMap m \<Rightarrow> m | _ \<Rightarrow> []) ''host''))) \<subseteq> set errs
      \<and> AStr (Host a) = snd (coerce parse [''server'', ''host''] (index (case data of AMap m \<Rightarrow> m | _ \<Rightarrow> []) ''host''))"
    and "set (fst (coerce parse [''server'', ''port''] (index (case data of AMap m \<Rightarrow> m | _ \<Rightarrow> []) ''port''))) \<subseteq> set errs
      \<and> AInt (Port a) = snd (coerce parse [''server'', ''port''] (index (case data of AMap m \<Rightarrow> m | _ \<Rightarrow> []) ''port''))"
    and "set (fst (coerce parse [''server'', ''timeout''] (index (case data of AMap m \<Rightarrow> m | _ \<Rightarrow> []) ''timeout''))) \<subseteq> set errs
      \<and> AInt (Timeout a) = snd (coerce parse [''server'', ''timeout''] (index (case data of AMap m \<Rightarrow> m | _ \<Rightarrow> []) ''timeout''))"
  using assms
  by (auto simp: decodeServerConfig_def decodeStruct_def coerce_def intKeys_def index_def
      split: any.splits prod.splits)

lemma decodeDatabase_fields:
  assumes "decodeDatabaseConfig parse [''database''] data = (errs, a)"
  shows "set (fst (coerce parse [''database'', ''host''] (index (case data of AMap m \<Rightarrow> m | _ \<Rightarrow> []) ''host''))) \<subseteq> set errs
      \<and> AStr (DbHost a) = snd (coerce parse [''database'', ''host''] (index (case data of AMap m \<Rightarrow> m | _ \<Rightarrow> []) ''host''))"
    and "set (fst (coerce parse [''database'', ''port''] (index (case data of AMap m \<Rightarrow> m | _ \<Rightarrow> []) ''port''))) \<subseteq> set errs
      \<and> AInt (DbPort a) = snd (coerce parse [''database'', ''port''] (index (case data of AMap m \<Rightarrow> m | _ \<Rightarrow> []) ''port''))"
    and "set (fst (coerce parse [''database'', ''username''] (index (case data of AMap m \<Rightarrow> m | _ \<Rightarrow> []) ''username''))) \<subseteq> set errs
      \<and> AStr (Username a) = snd (coerce parse [''database'', ''username''] (index (case data of AMap m \<Rightarrow> m | _ \<Rightarrow> []) ''username''))"
    and "set (fst (coerce parse [''database'', ''password''] (index (case data of AMap m \<Rightarrow> m | _ \<Rightarrow> []) ''password''))) \<subseteq> set errs
      \<and> AStr (Password a) = snd (coerce parse [''database'', ''password''] (index (case data of AMap m \<Rightarrow> m | _ \<Rightarrow> []) ''password''))"
    and "set (fst (coerce parse [''database'', ''name''] (index (case data of AMap m \<Rightarrow> m | _ \<Rightarrow> []) ''name''))) \<subseteq> set errs
      \<and> AStr (DbName a) = snd (coerce parse [''database'', ''name''] (index (case data of AMap m \<Rightarrow> m | _ \<Rightarrow> []) ''name''))"
  using assms
  by (auto simp: decodeDatabaseConfig_def decodeStruct_def coerce_def intKeys_def index_def
      split: any.splits prod.splits)

lemma decodeLogging_fields:
  assumes "decodeLoggingConfig [''logging''] data = (errs, a)"
  shows "set (fst (coerce parse [''logging'', ''level''] (index (case data of AMap m \<Rightarrow> m | _ \<Rightarrow> []) ''level''))) \<subseteq> set errs
      \<and> AStr (Level a) = snd (coerce parse [''logging'', ''level''] (index (case data of AMap m \<Rightarrow> m | _ \<Rightarrow> []) ''level''))"
    and "set (fst (coerce parse [''logging'', ''format''] (index (case data of AMap m \<Rightarrow> m | _ \<Rightarrow> []) ''format''))) \<subseteq> set errs
      \<and> AStr (Format a) = snd (coerce parse [''logging'', ''format''] (index (case data of AMap m \<Rightarrow> m | _ \<Rightarrow> []) ''format''))"
  using assms
  by (auto simp: decodeLoggingConfig_def decodeStruct_def coerce_def intKeys_def index_def
      split: any.splits prod.splits)


lemma decodeConfig_parts:
  assumes "decodeConfig parse (AMap m) = (errs, cfg)"
  shows "\<exists>e1 e2 e3 e4.
      decodeAppConfig [''app''] (index m ''app'') = (e1, App cfg)
    \<and> decodeServerConfig parse [''server''] (index m ''server'') = (e2, Server cfg)
    \<and> decodeDatabaseConfig parse [''database''] (index m ''database'') = (e3, Database cfg)
    \<and> decodeLoggingConfig [''logging''] (index m ''logging'') = (e4, Logging cfg)
    \<and> errs = e1 @ e2 @ e3 @ e4 @ unusedKeys [] groups m"
  using assms
  by (auto simp: decodeConfig_def decodeStruct_def groups_def split: prod.splits)

lemma decodeConfig_field:
  assumes "decodeConfig parse (AMap m) = (errs, cfg)" "(k, y) \<in> set (fieldTable cfg)"
  shows "set (fst (coerce parse k (searchMap m k))) \<subseteq> set errs
       \<and> y = snd (coerce parse k (searchMap m k))"
proof -
  from decodeConfig_parts [OF assms(1)] obtain e1 e2 e3 e4 where
      a: "decodeAppConfig [''app''] (index m ''app'') = (e1, App cfg)"
    and s: "decodeServerConfig parse [''server''] (index m ''server'') = (e2, Server cfg)"
    and d: "decodeDatabaseConfig parse [''database''] (index m ''database'') = (e3, Database cfg)"
    and l: "decodeLoggingConfig [''logging''] (index m ''logging'') = (e4, Logging cfg)"
    and e: "errs = e1 @ e2 @ e3 @ e4 @ unusedKeys [] groups m"
    by blast
  note fs = decodeApp_fields [OF a, of parse, unfolded subMap_index searchMap2 [symmetric]]
    decodeServer_fields [OF s, unfolded subMap_index searchMap2 [symmetric]]
    decodeDatabase_fields [OF d, unfolded subMap_index searchMap2 [symmetric]]
    decodeLogging_fields [OF l, of parse, unfolded subMap_index searchMap2 [symmetric]]
  from assms(2) fs show ?thesis
    unfolding e fieldTable_def by auto
qed

section \<open>What a bound key is decoded to\<close>

lemma fieldTable_keys: "map fst (fieldTable cfg) = map fst bindings"
  by (simp add: fieldTable_def bindings_def)

lemma bindings_distinct: "distinct (map fst bindings)"
  by (simp add: bindings_def)

lemma fieldTable_map_of:
  assumes "(k, n) \<in> set bindings"
  shows "\<exists>y. (k, y) \<in> set (fieldTable cfg) \<and> map_of (fieldTable cfg) k = Some y"
proof -
  from assms have "k \<in> set (map fst (fieldTable cfg))"
    unfolding fieldTable_keys by force
  then obtain y where y: "(k, y) \<in> set (fieldTable cfg)" by auto
  have "distinct (map fst (fieldTable cfg))"
    unfolding fieldTable_keys by (rule bindings_distinct)
  with y show ?thesis by auto
qed

lemma group_is_map:
  assumes "searchMap m [grp, leaf] \<noteq> ANil" "distinct (map fst m)"
  shows "\<forall>x. (grp, x) \<in> set m \<longrightarrow> (\<exists>m2. x = AMap m2)"
proof -
  from assms(1) obtain m3 where "map_of m grp = Some (AMap m3)"
    by (auto split: option.splits any.splits)
  with assms(2) show ?thesis by (metis map_of_is_SomeI option.inject)
qed

lemma coerce_flag:
  assumes "ValueType fv = (if k \<in> set intKeys then ''int'' else ''string'')"
  shows "coerce parse k (flagAny fv) = ([], flagAny fv)"
  using assms by (cases fv) (auto simp: coerce_def split: if_splits)

lemma bound_field:
  assumes "ready g" "(k, n) \<in> set bindings"
    and "\<forall>x. (hd k, x) \<in> set (config (viper g)) \<longrightarrow> (\<exists>m2. x = AMap m2)"
    and "set ks = set (AllKeys (viper g))"
    and "UnmarshalExact parse ks (flags g) env (viper g) = Inr cfg"
  shows "map_of (fieldTable cfg) k = Some (snd (coerce parse k (find (flags g) env (viper g) k)))"
    and "fst (coerce parse k (find (flags g) env (viper g) k)) = []"
proof -
  from assms(5) have d: "decodeConfig parse (AMap (getSettings (flags g) env (viper g) ks)) = ([], cfg)"
    by (auto simp: UnmarshalExact_def split: prod.splits list.splits)
  from fieldTable_map_of [OF assms(2)] obtain y where
    y: "(k, y) \<in> set (fieldTable cfg)" "map_of (fieldTable cfg) k = Some y" by blast
  from decodeConfig_field [OF d y(1)] y(2)
  show "map_of (fieldTable cfg) k = Some (snd (coerce parse k (find (flags g) env (viper g) k)))"
    and "fst (coerce parse k (find (flags g) env (viper g) k)) = []"
    unfolding settings_at_bound [OF assms(1-4)] by auto
qed

text \<open>
  Without any assumption on the file: every key viper lists is the bound key itself,
  the key of its group, or neither a prefix nor an extension of the bound key. The
  group is listed as a key when the file gives it a value that is not a map.
\<close>

definition near :: "key \<Rightarrow> key list \<Rightarrow> bool" where
  "near t ks \<longleftrightarrow> (\<forall>k \<in> set ks. k = t \<or> k = [hd t] \<or> (\<not> prefix k t \<and> \<not> prefix t k))"

lemma near_insert:
  "near t (List.insert k ks) \<longleftrightarrow>
     (k = t \<or> k = [hd t] \<or> (\<not> prefix k t \<and> \<not> prefix t k)) \<and> near t ks"
  by (auto simp: near_def)

lemma clear_near: "clear t ks \<Longrightarrow> near t ks"
  by (auto simp: clear_def near_def)

lemma new_key_near:
  assumes "\<not> prefix [grp, leaf] pfx"
  shows "pfx @ [k] = [grp, leaf] \<or> pfx @ [k] = [grp]
         \<or> (\<not> prefix (pfx @ [k]) [grp, leaf] \<and> \<not> prefix [grp, leaf] (pfx @ [k]))"
proof (cases "pfx = []")
  case True
  then show ?thesis by simp
next
  case False
  then show ?thesis using assms
    by (cases pfx; cases "tl pfx") (auto simp: prefix_snoc)
qed

lemma flatten_near:
  fixes grp leaf :: string
  defines "t \<equiv> [grp, leaf]"
  shows "t \<in> set shadow \<Longrightarrow> near t shadow \<Longrightarrow> \<not> strict_prefix t pfx \<Longrightarrow>
           t \<in> set (flattenAndMergeMap shadow m pfx) \<and> near t (flattenAndMergeMap shadow m pfx)"
    and "t \<in> set shadow \<Longrightarrow> near t shadow \<Longrightarrow> \<not> prefix t pfx \<Longrightarrow>
           t \<in> set (flattenEntries shadow m pfx) \<and> near t (flattenEntries shadow m pfx)"
  apply (induction shadow m pfx and shadow m pfx rule: flattenAndMergeMap_flattenEntries.induct)
  subgoal premises p for shadow m pfx
  proof (cases "pfx \<noteq> [] \<and> pfx \<in> set shadow")
    case True
    with p(2,3) show ?thesis by simp
  next
    case False
    have "\<not> prefix t pfx"
    proof
      assume "prefix t pfx"
      with p(4) have "pfx = t" by (auto simp: strict_prefix_def)
      with False p(2) show False by (simp add: t_def)
    qed
    from p(1) [OF False p(2,3) this] False show ?thesis by auto
  qed
  subgoal for shadow pfx
    by simp
  subgoal premises p for shadow k m2 rest pfx
  proof -
    have sp: "\<not> strict_prefix t (pfx @ [k])"
      using p(5) by (auto simp: strict_prefix_def prefix_snoc)
    from p(1) [OF p(3,4) sp] p(2) [OF _ _ p(5)] show ?thesis by auto
  qed
  subgoal premises p for shadow k va rest pfx
    using new_key_near [OF p(4) [unfolded t_def], of k] p(1) [OF _ _ p(4)] p(2,3)
    by (auto simp: near_insert t_def)
  subgoal premises p for shadow k va rest pfx
    using new_key_near [OF p(4) [unfolded t_def], of k] p(1) [OF _ _ p(4)] p(2,3)
    by (auto simp: near_insert t_def)
  subgoal premises p for shadow k va rest pfx
    using new_key_near [OF p(4) [unfolded t_def], of k] p(1) [OF _ _ p(4)] p(2,3)
    by (auto simp: near_insert t_def)
  subgoal premises p for shadow k rest pfx
    using new_key_near [OF p(4) [unfolded t_def], of k] p(1) [OF _ _ p(4)] p(2,3)
    by (auto simp: near_insert t_def)
  subgoal premises p for shadow k va rest pfx
    using new_key_near [OF p(4) [unfolded t_def], of k] p(1) [OF _ _ p(4)] p(2,3)
    by (auto simp: near_insert t_def)
  done

lemma AllKeys_near:
  assumes "ready g" "(k, n) \<in> set bindings"
  shows "k \<in> set (AllKeys (viper g)) \<and> near k (AllKeys (viper g))"
proof -
  from bound_facts [OF assms(2)] obtain grp leaf where k: "k = [grp, leaf]"
    by (cases k; cases "tl k") auto
  have in0: "k \<in> set (rev (map fst bindings))"
    using assms(2) by force
  have "clear k (rev (map fst bindings))"
    unfolding clear_def
  proof
    fix k' assume "k' \<in> set (rev (map fst bindings))"
    then obtain n' where "(k', n') \<in> set bindings" by auto
    from bound_facts [OF this] bound_facts [OF assms(2)] have "length k' = length k" by auto
    then show "k' = k \<or> (\<not> prefix k' k \<and> \<not> prefix k k')"
      using same_length_prefix [of k' k] same_length_prefix [of k k'] by auto
  qed
  then have "near k (rev (map fst bindings))" by (rule clear_near)
  from flatten_near(1) [of grp leaf "rev (map fst bindings)" "[]" "config (viper g)"]
    in0 this assms(1)
  show ?thesis
    by (simp add: AllKeys_def ready_def mergeFlatMap_bindings k)
qed

text \<open>
  So the settings hold at a bound key what the key resolves to, in every order of the
  keys, unless the key of its group is listed and resolves to a value.
\<close>

lemma settings_at_listed:
  assumes "ready g" "(k, n) \<in> set bindings"
    and "[hd k] \<in> set (AllKeys (viper g)) \<longrightarrow> find (flags g) env (viper g) [hd k] = ANil"
    and "set ks = set (AllKeys (viper g))"
  shows "searchMap (getSettings (flags g) env (viper g) ks) k = find (flags g) env (viper g) k"
proof -
  from bound_facts [OF assms(2)] have ne: "k \<noteq> []" by auto
  from AllKeys_near [OF assms(1,2)] assms(4)
  have "k \<in> set ks"
    and "\<forall>k' \<in> set ks. k' = k \<or> k' = [hd k] \<or> (\<not> prefix k' k \<and> \<not> prefix k k')"
    by (auto simp: near_def)
  with assms(3,4) have "\<forall>k' \<in> set ks. k' = k \<or> find (flags g) env (viper g) k' = ANil
      \<or> (\<not> prefix k' k \<and> \<not> prefix k k')"
    by blast
  with \<open>k \<in> set ks\<close> show ?thesis
    by (intro getSettings_lookup [OF ne]) auto
qed

lemma field_at_listed:
  assumes "ready g" "(k, n) \<in> set bindings"
    and "[hd k] \<in> set (AllKeys (viper g)) \<longrightarrow> find (flags g) env (viper g) [hd k] = ANil"
    and "set ks = set (AllKeys (viper g))"
    and "UnmarshalExact parse ks (flags g) env (viper g) = Inr cfg"
  shows "map_of (fieldTable cfg) k = Some (snd (coerce parse k (find (flags g) env (viper g) k)))
       \<and> fst (coerce parse k (find (flags g) env (viper g) k)) = []"
proof -
  from assms(5) have d: "decodeConfig parse (AMap (getSettings (flags g) env (viper g) ks)) = ([], cfg)"
    by (auto simp: UnmarshalExact_def split: prod.splits list.splits)
  from fieldTable_map_of [OF assms(2)] obtain y where
    y: "(k, y) \<in> set (fieldTable cfg)" "map_of (fieldTable cfg) k = Some y" by blast
  from decodeConfig_field [OF d y(1)] y(2)
  show ?thesis
    unfolding settings_at_listed [OF assms(1-4)] by auto
qed

section \<open>Runs of the program\<close>

text \<open>
  The states in which \<^verbatim>\<open>Run\<close> is called, written out: the flag set with a flag given
  on the command line, and the globals after a configuration file was read or was
  not found.
\<close>

definition given :: "string \<Rightarrow> FlagValue \<Rightarrow> FlagSet \<Rightarrow> FlagSet" where
  "given name val fs =
     map (\<lambda>f. if FlagName f = name then f\<lparr> FlagVal := val, Changed := True \<rparr> else f) fs"

definition withFile :: "string \<Rightarrow> (string \<times> any) list \<Rightarrow> FlagSet \<Rightarrow> Globals" where
  "withFile path file fs =
     \<lparr> cfgFile = path,
       viper = New\<lparr> pflags := bindings, envPrefix := ''MYAPP'',
                    envKeyReplacer := Some (CHR ''.'', CHR ''_''), automaticEnvApplied := True,
                    configFile := path, config := file \<rparr>,
       flags = fs \<rparr>"

definition withoutFile :: "FlagSet \<Rightarrow> Globals" where
  "withoutFile fs =
     \<lparr> cfgFile = '''',
       viper = New\<lparr> pflags := bindings, envPrefix := ''MYAPP'',
                    envKeyReplacer := Some (CHR ''.'', CHR ''_''), automaticEnvApplied := True,
                    configPaths := [''.''], configName := ''config'', configType := ''yaml'' \<rparr>,
       flags = fs \<rparr>"

definition usingFile :: Out where
  "usingFile = \<lparr> stdout = [''Using config file: /tmp/config.yaml'', ''''], stderr = [] \<rparr>"

definition noFileFound :: Out where
  "noFileFound =
     \<lparr> stdout = [''No config file found, using flags and environment variables only''],
       stderr = [] \<rparr>"

definition fileSystem :: "(string \<times> any) list \<Rightarrow> FileSystem" where
  "fileSystem file = (\<lambda>request. ReadOk ''/tmp/config.yaml'' file)"

text \<open>
  The test "Flag Override" with the port set in the environment as well: the name and
  the port are set in all three layers.
\<close>

definition argsA :: "arg list" where
  "argsA = [ConfigArg ''/tmp/config.yaml'', FlagArg ''app-name'' (StringValue ''FlagAppName''),
            FlagArg ''server-port'' (IntValue 8082)]"

definition envA :: Env where
  "envA = [''MYAPP_APP_NAME'' \<mapsto> ''EnvAppName'', ''MYAPP_SERVER_PORT'' \<mapsto> ''8081'']"

definition gA :: Globals where
  "gA = withFile ''/tmp/config.yaml'' baseConfig
          (given ''server-port'' (IntValue 8082)
            (given ''app-name'' (StringValue ''FlagAppName'') initialFlags))"

definition flagA :: Flag where
  "flagA = (newFlag ''app-name'' ''n'' ''Application name'' (StringValue ''''))
             \<lparr> FlagVal := StringValue ''FlagAppName'', Changed := True \<rparr>"

definition cfgA :: Config where
  "cfgA =
     \<lparr> App = \<lparr> Name = ''FlagAppName'', Version = ''1.0.0'', Environment = ''production'' \<rparr>,
       Server = \<lparr> Host = ''localhost'', Port = 8082, Timeout = 30 \<rparr>,
       Database = \<lparr> DbHost = ''db.local'', DbPort = 5432, Username = ''user'',
                    Password = ''password'', DbName = ''dbname'' \<rparr>,
       Logging = \<lparr> Level = ''info'', Format = ''json'' \<rparr> \<rparr>"

lemma runA: "beforeRun argsA envA (fileSystem baseConfig) = Inr (gA, usingFile)"
  by code_simp

lemma unmarshalA:
  "UnmarshalExact decimal (AllKeys (viper gA)) (flags gA) envA (viper gA) = Inr cfgA"
  by code_simp

text \<open>
  The test "Mixed Priority": the server host on the command line, the application
  name and the database port in the environment, the rest in the file.
\<close>

definition argsB :: "arg list" where
  "argsB = [ConfigArg ''/tmp/config.yaml'', FlagArg ''server-host'' (StringValue ''flaghost'')]"

definition envB :: Env where
  "envB = [''MYAPP_APP_NAME'' \<mapsto> ''EnvAppName'', ''MYAPP_DATABASE_PORT'' \<mapsto> ''6543'']"

definition gB :: Globals where
  "gB = withFile ''/tmp/config.yaml'' baseConfig
          (given ''server-host'' (StringValue ''flaghost'') initialFlags)"

definition cfgB :: Config where
  "cfgB =
     \<lparr> App = \<lparr> Name = ''EnvAppName'', Version = ''1.0.0'', Environment = ''production'' \<rparr>,
       Server = \<lparr> Host = ''flaghost'', Port = 8080, Timeout = 30 \<rparr>,
       Database = \<lparr> DbHost = ''db.local'', DbPort = 6543, Username = ''user'',
                    Password = ''password'', DbName = ''dbname'' \<rparr>,
       Logging = \<lparr> Level = ''info'', Format = ''json'' \<rparr> \<rparr>"

lemma runB: "beforeRun argsB envB (fileSystem baseConfig) = Inr (gB, usingFile)"
  by code_simp

lemma unmarshalB:
  "UnmarshalExact decimal (AllKeys (viper gB)) (flags gB) envB (viper gB) = Inr cfgB"
  by code_simp

text \<open>
  The file alone on the command line, with two variables in the environment: the one
  of the application name, set to the empty string, and one named after the server
  group.
\<close>

definition argsC :: "arg list" where
  "argsC = [ConfigArg ''/tmp/config.yaml'']"

definition envC :: Env where
  "envC = [''MYAPP_APP_NAME'' \<mapsto> '''', ''MYAPP_SERVER'' \<mapsto> ''1'']"

definition gC :: Globals where
  "gC = withFile ''/tmp/config.yaml'' baseConfig initialFlags"

definition cfgC :: Config where
  "cfgC =
     \<lparr> App = \<lparr> Name = ''ConfigAppName'', Version = ''1.0.0'', Environment = ''production'' \<rparr>,
       Server = \<lparr> Host = '''', Port = 0, Timeout = 0 \<rparr>,
       Database = \<lparr> DbHost = ''db.local'', DbPort = 5432, Username = ''user'',
                    Password = ''password'', DbName = ''dbname'' \<rparr>,
       Logging = \<lparr> Level = ''info'', Format = ''json'' \<rparr> \<rparr>"




text \<open>No file, no flag, and a port in the environment that is not a number.\<close>

definition envF :: Env where
  "envF = [''MYAPP_SERVER_PORT'' \<mapsto> ''abc'']"

text \<open>
  A file that gives the server group a number instead of a map, with two variables of
  the group's keys in the environment, and an order of viper's keys in which the group
  comes between the two.
\<close>

definition plainGroup :: "(string \<times> any) list" where
  "plainGroup = [(''server'', AInt 5)]"

definition envD :: Env where
  "envD = [''MYAPP_SERVER_PORT'' \<mapsto> ''8081'', ''MYAPP_SERVER_HOST'' \<mapsto> ''h'']"

definition gD :: Globals where
  "gD = withFile ''/tmp/config.yaml'' plainGroup initialFlags"

definition ksD :: "key list" where
  "ksD = [[''server'', ''port''], [''server''], [''server'', ''host''], [''server'', ''timeout''],
          [''app'', ''name''], [''app'', ''version''], [''app'', ''environment''],
          [''database'', ''host''], [''database'', ''port''], [''database'', ''username''],
          [''database'', ''password''], [''database'', ''name''],
          [''logging'', ''level''], [''logging'', ''format'']]"

definition cfgD :: Config where
  "cfgD =
     \<lparr> App = \<lparr> Name = '''', Version = '''', Environment = '''' \<rparr>,
       Server = \<lparr> Host = ''h'', Port = 0, Timeout = 0 \<rparr>,
       Database = \<lparr> DbHost = '''', DbPort = 0, Username = '''', Password = '''', DbName = '''' \<rparr>,
       Logging = \<lparr> Level = '''', Format = '''' \<rparr> \<rparr>"

section \<open>Precedence of the layers\<close>

text \<open>
  Claim C1. Take any run of the command: any command line that cobra accepts, any
  environment, any file system. For every bound key whose flag was given on the
  command line and which is present in the configuration file (a map, so each key
  occurs once), the key resolves to the value of the flag, and every struct that
  \<^verbatim>\<open>UnmarshalExact\<close> returns holds the flag's value in the field of that key. This is so
  whatever the environment holds for the key, and in whatever order viper walks its
  keys.
\<close>

theorem flag_wins:
  assumes "beforeRun args env fsys = Inr (g, out)"
    and "(k, n) \<in> set bindings"
    and "Lookup (flags g) n = Some f" and "Changed f"
    and "searchMap (config (viper g)) k \<noteq> ANil" and "distinct (map fst (config (viper g)))"
    and "set ks = set (AllKeys (viper g))"
    and "UnmarshalExact parse ks (flags g) env (viper g) = Inr cfg"
  shows "find (flags g) env (viper g) k = flagAny (FlagVal f)
       \<and> map_of (fieldTable cfg) k = Some (flagAny (FlagVal f))"
proof -
  from assms(1) have r: "ready g" by (rule beforeRun_ready)
  from ready_boundFlag [OF r assms(2)] assms(3) have
    b: "boundFlag (flags g) (viper g) k = Some f"
    and t: "ValueType (FlagVal f) = (if k \<in> set intKeys then ''int'' else ''string'')"
    by auto
  from find_bound [OF r assms(2) b] assms(4)
  have f: "find (flags g) env (viper g) k = flagAny (FlagVal f)" by simp
  from bound_facts [OF assms(2)] obtain grp leaf where k: "k = [grp, leaf]"
    by (cases k; cases "tl k") auto
  from group_is_map [OF assms(5) [unfolded k] assms(6)]
  have "\<forall>x. (hd k, x) \<in> set (config (viper g)) \<longrightarrow> (\<exists>m2. x = AMap m2)"
    by (simp add: k)
  from bound_field(1) [OF r assms(2) this assms(7,8)] f coerce_flag [OF t]
  show ?thesis by simp
qed

theorem flag_wins_witness:
  "beforeRun argsA envA (fileSystem baseConfig) = Inr (gA, usingFile)
   \<and> Lookup (flags gA) ''app-name'' = Some flagA \<and> Changed flagA
   \<and> envA ''MYAPP_APP_NAME'' = Some ''EnvAppName''
   \<and> searchMap (config (viper gA)) [''app'', ''name''] = AStr ''ConfigAppName''
   \<and> UnmarshalExact decimal (AllKeys (viper gA)) (flags gA) envA (viper gA) = Inr cfgA
   \<and> find (flags gA) envA (viper gA) [''app'', ''name''] = AStr ''FlagAppName''
   \<and> map_of (fieldTable cfgA) [''app'', ''name''] = Some (AStr ''FlagAppName'')"
proof -
  have b: "([''app'', ''name''], ''app-name'') \<in> set bindings" by code_simp
  have l: "Lookup (flags gA) ''app-name'' = Some flagA" by code_simp
  have c: "Changed flagA" by code_simp
  have e: "envA ''MYAPP_APP_NAME'' = Some ''EnvAppName''" by code_simp
  have s: "searchMap (config (viper gA)) [''app'', ''name''] = AStr ''ConfigAppName''" by code_simp
  then have s': "searchMap (config (viper gA)) [''app'', ''name''] \<noteq> ANil" by simp
  have d: "distinct (map fst (config (viper gA)))" by code_simp
  have v: "flagAny (FlagVal flagA) = AStr ''FlagAppName''" by code_simp
  from flag_wins [OF runA b l c s' d refl unmarshalA] v runA l c e s unmarshalA
  show ?thesis by simp
qed

text \<open>
  Claim C9, amended. Take any run of the command and a bound key whose flag was not
  given. If the environment variable of the key is set to a non-empty string, the
  key resolves to that string. If that variable is not set or empty, no non-empty
  variable is set under the name of the key's group, and the file has a value for
  the key, the key resolves to the value of the file. Each key resolves on its own,
  so different keys take their values from different layers in one call. A variable
  set to the empty string does not count as set: viper skips it. Every Config that
  \<^verbatim>\<open>UnmarshalExact\<close> returns holds the value the key resolves to, parsed for an int
  field, in whatever order viper goes through its keys, unless the key's group is
  itself listed among viper's keys and resolves to a value there, as it is when the
  file gives the group a value that is not a map.
\<close>

theorem falls_through:
  assumes "beforeRun args env fsys = Inr (g, out)"
    and "(k, n) \<in> set bindings"
    and "Lookup (flags g) n = Some f" and "\<not> Changed f"
  shows "(\<forall>e. env (specEnvName k) = Some e \<and> e \<noteq> '''' \<longrightarrow>
            find (flags g) env (viper g) k = AStr e)
       \<and> ((env (specEnvName k) = None \<or> env (specEnvName k) = Some '''')
          \<and> (env (specEnvName [hd k]) = None \<or> env (specEnvName [hd k]) = Some '''')
          \<and> searchMap (config (viper g)) k \<noteq> ANil \<longrightarrow>
            find (flags g) env (viper g) k = searchMap (config (viper g)) k)
       \<and> (\<forall>ks cfg. set ks = set (AllKeys (viper g))
            \<and> ([hd k] \<in> set (AllKeys (viper g)) \<longrightarrow> find (flags g) env (viper g) [hd k] = ANil)
            \<and> UnmarshalExact parse ks (flags g) env (viper g) = Inr cfg \<longrightarrow>
            map_of (fieldTable cfg) k = Some (snd (coerce parse k (find (flags g) env (viper g) k)))
            \<and> fst (coerce parse k (find (flags g) env (viper g) k)) = [])"
proof -
  from assms(1) have r: "ready g" by (rule beforeRun_ready)
  from ready_boundFlag [OF r assms(2)] assms(3) have
    b: "boundFlag (flags g) (viper g) k = Some f" by auto
  note f = find_bound [OF r assms(2) b, of env, unfolded ready_getEnv [OF r assms(2)]]
  have e: "\<forall>e. env (specEnvName k) = Some e \<and> e \<noteq> '''' \<longrightarrow>
            find (flags g) env (viper g) k = AStr e"
    using f assms(4) by simp
  have c: "(env (specEnvName k) = None \<or> env (specEnvName k) = Some '''')
          \<and> (env (specEnvName [hd k]) = None \<or> env (specEnvName [hd k]) = Some '''')
          \<and> searchMap (config (viper g)) k \<noteq> ANil \<longrightarrow>
            find (flags g) env (viper g) k = searchMap (config (viper g)) k"
    using f assms(4) by auto
  have s: "\<forall>ks cfg. set ks = set (AllKeys (viper g))
            \<and> ([hd k] \<in> set (AllKeys (viper g)) \<longrightarrow> find (flags g) env (viper g) [hd k] = ANil)
            \<and> UnmarshalExact parse ks (flags g) env (viper g) = Inr cfg \<longrightarrow>
            map_of (fieldTable cfg) k = Some (snd (coerce parse k (find (flags g) env (viper g) k)))
            \<and> fst (coerce parse k (find (flags g) env (viper g) k)) = []"
    using field_at_listed [OF r assms(2)] by blast
  from e c s show ?thesis by blast
qed

theorem falls_through_witness:
  "beforeRun argsB envB (fileSystem baseConfig) = Inr (gB, usingFile)
   \<and> UnmarshalExact decimal (AllKeys (viper gB)) (flags gB) envB (viper gB) = Inr cfgB
   \<and> envB ''MYAPP_DATABASE_PORT'' = Some ''6543''
   \<and> find (flags gB) envB (viper gB) [''database'', ''port''] = AStr ''6543''
   \<and> map_of (fieldTable cfgB) [''database'', ''port''] = Some (AInt 6543)
   \<and> envB ''MYAPP_SERVER_PORT'' = None \<and> envB ''MYAPP_SERVER'' = None
   \<and> find (flags gB) envB (viper gB) [''server'', ''port''] = AInt 8080
   \<and> map_of (fieldTable cfgB) [''server'', ''port''] = Some (AInt 8080)
   \<and> find (flags gB) envB (viper gB) [''server'', ''host''] = AStr ''flaghost''"
proof -
  have b1: "([''database'', ''port''], ''db-port'') \<in> set bindings" by code_simp
  have l1: "Lookup (flags gB) ''db-port'' = Some (newFlag ''db-port'' '''' ''Database port'' (IntValue 0))"
    by code_simp
  have c1: "\<not> Changed (newFlag ''db-port'' '''' ''Database port'' (IntValue 0))" by code_simp
  have s1: "[hd [''database'', ''port'']] \<in> set (AllKeys (viper gB)) \<longrightarrow>
      find (flags gB) envB (viper gB) [hd [''database'', ''port'']] = ANil"
    by code_simp
  have e1: "specEnvName [''database'', ''port''] = ''MYAPP_DATABASE_PORT''"
    "envB ''MYAPP_DATABASE_PORT'' = Some ''6543''"
    "coerce decimal [''database'', ''port''] (AStr ''6543'') = ([], AInt 6543)"
    by code_simp+
  have b2: "([''server'', ''port''], ''server-port'') \<in> set bindings" by code_simp
  have l2: "Lookup (flags gB) ''server-port'' = Some (newFlag ''server-port'' ''p'' ''Server port'' (IntValue 0))"
    by code_simp
  have c2: "\<not> Changed (newFlag ''server-port'' ''p'' ''Server port'' (IntValue 0))" by code_simp
  have s2: "[hd [''server'', ''port'']] \<in> set (AllKeys (viper gB)) \<longrightarrow>
      find (flags gB) envB (viper gB) [hd [''server'', ''port'']] = ANil"
    by code_simp
  have e2: "specEnvName [''server'', ''port''] = ''MYAPP_SERVER_PORT''"
    "specEnvName [hd [''server'', ''port'']] = ''MYAPP_SERVER''"
    "envB ''MYAPP_SERVER_PORT'' = None" "envB ''MYAPP_SERVER'' = None"
    "searchMap (config (viper gB)) [''server'', ''port''] = AInt 8080"
    "coerce decimal [''server'', ''port''] (AInt 8080) = ([], AInt 8080)"
    by code_simp+
  have h: "find (flags gB) envB (viper gB) [''server'', ''host''] = AStr ''flaghost''" by code_simp
  note t1 = falls_through [OF runB b1 l1 c1, of decimal]
  from t1 e1 have f1: "find (flags gB) envB (viper gB) [''database'', ''port''] = AStr ''6543''"
    by simp
  from t1 s1 unmarshalB
  have "map_of (fieldTable cfgB) [''database'', ''port'']
      = Some (snd (coerce decimal [''database'', ''port'']
          (find (flags gB) envB (viper gB) [''database'', ''port''])))"
    by blast
  with f1 e1 have m1: "map_of (fieldTable cfgB) [''database'', ''port''] = Some (AInt 6543)"
    by simp
  note t2 = falls_through [OF runB b2 l2 c2, of decimal]
  from t2 e2 have f2: "find (flags gB) envB (viper gB) [''server'', ''port''] = AInt 8080"
    by simp
  from t2 s2 unmarshalB
  have "map_of (fieldTable cfgB) [''server'', ''port'']
      = Some (snd (coerce decimal [''server'', ''port'']
          (find (flags gB) envB (viper gB) [''server'', ''port''])))"
    by blast
  with f2 e2 have m2: "map_of (fieldTable cfgB) [''server'', ''port''] = Some (AInt 8080)"
    by simp
  from f1 m1 f2 m2 runB unmarshalB e1(2) e2(3,4) h show ?thesis by simp
qed

text \<open>
  The claim as the spec has it fails in two ways. The variable of the application name
  is set, to the empty string, and no flag was given: the name resolves to the value
  of the file, not to the value of the environment. The port of the server is set in
  the file only, yet it resolves to nothing and the struct holds 0, because a
  variable with the name of the group, \<^verbatim>\<open>MYAPP_SERVER\<close>, is set.
\<close>

theorem falls_through_counterexample:
  "beforeRun argsC envC (fileSystem baseConfig) = Inr (gC, usingFile)
   \<and> list_all (\<lambda>f. \<not> Changed f) (flags gC)
   \<and> envC ''MYAPP_APP_NAME'' = Some ''''
   \<and> find (flags gC) envC (viper gC) [''app'', ''name''] = AStr ''ConfigAppName''
   \<and> envC ''MYAPP_SERVER_PORT'' = None
   \<and> searchMap (config (viper gC)) [''server'', ''port''] = AInt 8080
   \<and> find (flags gC) envC (viper gC) [''server'', ''port''] = ANil
   \<and> UnmarshalExact decimal (AllKeys (viper gC)) (flags gC) envC (viper gC) = Inr cfgC
   \<and> Name (App cfgC) \<noteq> '''' \<and> Port (Server cfgC) \<noteq> 8080"
  by code_simp

text \<open>
  Why the amended claim leaves out a group that is itself a key with a value: when the
  file gives the server group the number 5, the port resolves to the value of its
  variable, and yet, in an order of the keys in which the group comes after the port,
  the struct that \<^verbatim>\<open>UnmarshalExact\<close> returns holds 0.
\<close>

lemma group_with_plain_value:
  "beforeRun argsC envD (fileSystem plainGroup) = Inr (gD, usingFile)
   \<and> set ksD = set (AllKeys (viper gD)) \<and> distinct ksD
   \<and> [''server''] \<in> set (AllKeys (viper gD))
   \<and> find (flags gD) envD (viper gD) [''server''] = AInt 5
   \<and> find (flags gD) envD (viper gD) [''server'', ''port''] = AStr ''8081''
   \<and> UnmarshalExact decimal ksD (flags gD) envD (viper gD) = Inr cfgD
   \<and> Port (Server cfgD) = 0"
  by code_simp

section \<open>Keys outside the struct\<close>











section \<open>Values that cannot be coerced\<close>

lemma coerce_fails_iff:
  "fst (coerce parse k x) \<noteq> [] \<longleftrightarrow>
     (if k \<in> set intKeys
      then (\<exists>s. x = AStr s \<and> parse (if s = '''' then ''0'' else s) = None)
           \<or> (\<exists>xs. x = AList xs) \<or> (\<exists>m. x = AMap m)
      else (\<exists>xs. x = AList xs) \<or> (\<exists>m. x = AMap m))"
  by (cases x) (auto simp: coerce_def split: option.splits)

text \<open>
  Claim C5. When the merged settings hold, at a bound key, a value that cannot be
  coerced to the type of the key's field (for an int field: a string that does not
  parse, a list or a map), \<^verbatim>\<open>loadAndValidateConfig\<close> returns the unmarshalling
  error, which contains the error of that coercion, and no Config. The output is
  what it was: \<^verbatim>\<open>validateConfig\<close>, which reports on standard error, has not run,
  whatever rules the other values would violate.
\<close>

theorem mismatch_aborts:
  assumes "(k, n) \<in> set bindings"
    and "searchMap (getSettings (flags g) env (viper g) ks) k = x"
    and "fst (coerce parse k x) \<noteq> []"
  shows "\<exists>errs. loadAndValidateConfig parse ks env g out = (Inl (UnmarshalError errs), out)
           \<and> set (fst (coerce parse k x)) \<subseteq> set errs"
proof -
  let ?m = "getSettings (flags g) env (viper g) ks"
  obtain errs cfg where d: "decodeConfig parse (AMap ?m) = (errs, cfg)"
    by (cases "decodeConfig parse (AMap ?m)")
  from fieldTable_map_of [OF assms(1), of cfg] obtain y where "(k, y) \<in> set (fieldTable cfg)"
    by blast
  from decodeConfig_field [OF d this] assms(2)
  have sub: "set (fst (coerce parse k x)) \<subseteq> set errs" by simp
  with assms(3) have "errs \<noteq> []" by auto
  with d have "UnmarshalExact parse ks (flags g) env (viper g) = Inl errs"
    by (cases errs) (auto simp: UnmarshalExact_def)
  then have "loadAndValidateConfig parse ks env g out = (Inl (UnmarshalError errs), out)"
    by (simp add: loadAndValidateConfig_def)
  with sub show ?thesis by blast
qed

theorem mismatch_aborts_witness:
  "beforeRun [] envF (\<lambda>request. ConfigFileNotFoundError) = Inr (withoutFile initialFlags, noFileFound)
   \<and> searchMap (getSettings initialFlags envF (viper (withoutFile initialFlags))
        (AllKeys (viper (withoutFile initialFlags)))) [''server'', ''port''] = AStr ''abc''
   \<and> coerce decimal [''server'', ''port''] (AStr ''abc'') = ([CannotParse [''server'', ''port''] ''abc''], AInt 0)
   \<and> (\<exists>errs. loadAndValidateConfig decimal (AllKeys (viper (withoutFile initialFlags))) envF
                (withoutFile initialFlags) noFileFound = (Inl (UnmarshalError errs), noFileFound)
         \<and> CannotParse [''server'', ''port''] ''abc'' \<in> set errs)"
proof -
  have r: "beforeRun [] envF (\<lambda>request. ConfigFileNotFoundError)
             = Inr (withoutFile initialFlags, noFileFound)" by code_simp
  have b: "([''server'', ''port''], ''server-port'') \<in> set bindings" by code_simp
  have f: "flags (withoutFile initialFlags) = initialFlags" by (simp add: withoutFile_def)
  have s: "searchMap (getSettings (flags (withoutFile initialFlags)) envF
             (viper (withoutFile initialFlags)) (AllKeys (viper (withoutFile initialFlags))))
             [''server'', ''port''] = AStr ''abc''" by code_simp
  have c: "coerce decimal [''server'', ''port''] (AStr ''abc'')
             = ([CannotParse [''server'', ''port''] ''abc''], AInt 0)" by code_simp
  then have c': "fst (coerce decimal [''server'', ''port''] (AStr ''abc'')) \<noteq> []" by simp
  from mismatch_aborts [OF b s c', of noFileFound] r s c show ?thesis by (simp add: f)
qed

section \<open>The rules of the spec and the validator\<close>

text \<open>
  The three rule kinds in the words of the spec: Required is violated by the empty
  string, NumericRange by an integer outside the closed interval, Enumeration by a
  non-empty string that is not in the allowed set.
\<close>

definition specRequired :: "string \<Rightarrow> bool" where
  "specRequired s \<longleftrightarrow> s = ''''"

definition specNumericRange :: "int \<Rightarrow> int \<Rightarrow> int \<Rightarrow> bool" where
  "specNumericRange lo hi i \<longleftrightarrow> i < lo \<or> hi < i"

definition specEnumeration :: "string list \<Rightarrow> string \<Rightarrow> bool" where
  "specEnumeration allowed s \<longleftrightarrow> s \<noteq> '''' \<and> s \<notin> set allowed"

text \<open>
  The fields that violate a rule, in the order the structs declare them: the name,
  the environment, the port.
\<close>

definition specViolations :: "'a Config_scheme \<Rightarrow> string list" where
  "specViolations c =
     (if specRequired (Name (App c)) then [''Config.App.Name''] else [])
     @ (if specEnumeration [''development'', ''staging'', ''production''] (Environment (App c))
        then [''Config.App.Environment''] else [])
     @ (if specNumericRange 1024 9000 (Port (Server c)) then [''Config.Server.Port''] else [])"

text \<open>The errors the validator reports for one field.\<close>

definition errorsAt :: "string \<Rightarrow> 'a Config_scheme \<Rightarrow> FieldError list" where
  "errorsAt ns c = filter (\<lambda>e. Namespace e = ns) (Struct c)"

text \<open>
  Where the structs carry \<^verbatim>\<open>required\<close>: the namespace of every field with the tag,
  and the kind of the field.
\<close>

fun requiredOn :: "string \<Rightarrow> field \<Rightarrow> (string \<times> string) list"
  and requiredIn :: "string \<Rightarrow> field list \<Rightarrow> (string \<times> string) list" where
  "requiredOn ns (StringField name ct s) = (if Required \<in> set ct then [(ns @ name, ''string'')] else [])"
| "requiredOn ns (IntField name ct i) = (if Required \<in> set ct then [(ns @ name, ''int'')] else [])"
| "requiredOn ns (StructField name required members) =
     (if required then [(ns @ name, ''struct'')] else []) @ requiredIn (ns @ name @ ''.'') members"
| "requiredIn ns [] = []"
| "requiredIn ns (f # fs) = requiredOn ns f @ requiredIn ns fs"

definition requiredTags :: "'a Config_scheme \<Rightarrow> (string \<times> string) list" where
  "requiredTags c = requiredIn ''Config.'' (Config_fields c)"

lemma Struct_eq:
  "Struct c =
     (if Name (App c) = '''' then
        [\<lparr> Namespace = ''Config.App.Name'', Field = ''Name'', Tag = ''required'',
            Value = StringVal (Name (App c)), Param = '''' \<rparr>] else [])
     @ (if Environment (App c) \<noteq> '''' \<and>
           Environment (App c) \<notin> set [''development'', ''staging'', ''production''] then
        [\<lparr> Namespace = ''Config.App.Environment'', Field = ''Environment'', Tag = ''oneof'',
            Value = StringVal (Environment (App c)), Param = ''development staging production'' \<rparr>] else [])
     @ (if Port (Server c) < 1024 then
        [\<lparr> Namespace = ''Config.Server.Port'', Field = ''Port'', Tag = ''gte'',
            Value = IntVal (Port (Server c)), Param = ''1024'' \<rparr>]
        else if 9000 < Port (Server c) then
        [\<lparr> Namespace = ''Config.Server.Port'', Field = ''Port'', Tag = ''lte'',
            Value = IntVal (Port (Server c)), Param = ''9000'' \<rparr>] else [])"
  by (simp add: Struct_def Config_fields_def AppConfig_fields_def ServerConfig_fields_def
      DatabaseConfig_fields_def LoggingConfig_fields_def itoa_1024 itoa_9000)

text \<open>
  Claim C3, amended. The Required rule reports a violation exactly when the string
  it is attached to is empty: the validator's run of the tag on a string field, and
  the errors tagged \<^verbatim>\<open>required\<close> in the validation of a whole Config, which are the
  one for an empty name and no other. The tag is declared twice in the structs, on
  the string \<^verbatim>\<open>AppConfig.Name\<close> and on the struct-typed field \<^verbatim>\<open>Config.App\<close>; on the
  latter the validator skips it, so no Required violation is ever reported for a field
  that is not a string.
\<close>

theorem required_rule:
  "(runString ns name [Required] s \<noteq> [] \<longleftrightarrow> specRequired s)
   \<and> filter (\<lambda>e. Tag e = ''required'') (Struct c) =
       (if specRequired (Name (App c))
        then [\<lparr> Namespace = ''Config.App.Name'', Field = ''Name'', Tag = ''required'',
                 Value = StringVal '''', Param = '''' \<rparr>]
        else [])
   \<and> requiredTags c = [(''Config.App'', ''struct''), (''Config.App.Name'', ''string'')]"
proof (intro conjI)
  show "runString ns name [Required] s \<noteq> [] \<longleftrightarrow> specRequired s"
    by (simp add: specRequired_def)
  show "filter (\<lambda>e. Tag e = ''required'') (Struct c) =
       (if specRequired (Name (App c))
        then [\<lparr> Namespace = ''Config.App.Name'', Field = ''Name'', Tag = ''required'',
                 Value = StringVal '''', Param = '''' \<rparr>]
        else [])"
    by (simp add: Struct_eq specRequired_def)
  show "requiredTags c = [(''Config.App'', ''struct''), (''Config.App.Name'', ''string'')]"
    by (simp add: requiredTags_def Config_fields_def AppConfig_fields_def ServerConfig_fields_def
        DatabaseConfig_fields_def LoggingConfig_fields_def)
qed

definition namedConfig :: Config where
  "namedConfig = zeroConfig\<lparr> App := \<lparr> Name = ''myapp'', Version = ''1.0.0'', Environment = '''' \<rparr> \<rparr>"

theorem required_rule_witness:
  "runString ''Config.App.'' ''Name'' [Required] '''' \<noteq> []
   \<and> runString ''Config.App.'' ''Name'' [Required] ''myapp'' = []
   \<and> filter (\<lambda>e. Tag e = ''required'') (Struct zeroConfig) =
        [\<lparr> Namespace = ''Config.App.Name'', Field = ''Name'', Tag = ''required'',
            Value = StringVal '''', Param = '''' \<rparr>]
   \<and> filter (\<lambda>e. Tag e = ''required'') (Struct namedConfig) = []"
  using required_rule [of "''Config.App.''" "''Name''" "''''" zeroConfig]
    required_rule [of "''Config.App.''" "''Name''" "''myapp''" namedConfig]
  by (simp add: specRequired_def zeroConfig_def namedConfig_def)

text \<open>
  The claim as stated fails: \<^verbatim>\<open>required\<close> is attached to \<^verbatim>\<open>Config.App\<close>, which is a
  struct.
\<close>

theorem required_on_struct_counterexample:
  "(''Config.App'', ''struct'') \<in> set (requiredTags zeroConfig)"
  by (simp add: requiredTags_def Config_fields_def AppConfig_fields_def ServerConfig_fields_def
      DatabaseConfig_fields_def LoggingConfig_fields_def)

text \<open>
  Claim C4. The validator does not stop at the first failure: the fields it reports
  are exactly the fields that violate a rule, each once, in the order of declaration,
  and \<^verbatim>\<open>validateConfig\<close> returns them all and prints a report for each. So a Config
  that violates two rules on two fields yields exactly two entries.
\<close>

theorem violations_collected:
  assumes "length (specViolations c) = 2"
  shows "map Namespace (Struct c) = specViolations c
       \<and> length (Struct c) = 2
       \<and> distinct (map Namespace (Struct c))
       \<and> validateConfig c out =
           (Some (ValidationErrors (Struct c)),
            out\<lparr> stderr := stderr out @ ''Configuration validation failed:'' #
                             concat (map report (Struct c)) \<rparr>)"
proof -
  have m: "map Namespace (Struct c) = specViolations c"
    by (simp add: Struct_eq specViolations_def specRequired_def specEnumeration_def
        specNumericRange_def)
  with assms have l: "length (Struct c) = 2"
    by (metis length_map)
  have d: "distinct (specViolations c)"
    by (simp add: specViolations_def)
  from l have "Struct c \<noteq> []" by auto
  then have "validateConfig c out =
           (Some (ValidationErrors (Struct c)),
            out\<lparr> stderr := stderr out @ ''Configuration validation failed:'' #
                             concat (map report (Struct c)) \<rparr>)"
    by (cases "Struct c") (simp_all add: validateConfig_def)
  with m l d show ?thesis by simp
qed

lemma violations_in_order: "map Namespace (Struct c) = specViolations c"
  by (simp add: Struct_eq specViolations_def specRequired_def specEnumeration_def
      specNumericRange_def)

definition twoViolations :: Config where
  "twoViolations = zeroConfig\<lparr> Server := \<lparr> Host = ''localhost'', Port = 80, Timeout = 30 \<rparr> \<rparr>"

theorem violations_collected_witness:
  "length (specViolations twoViolations) = 2
   \<and> map Namespace (Struct twoViolations) = [''Config.App.Name'', ''Config.Server.Port'']
   \<and> length (Struct twoViolations) = 2"
proof -
  have h: "length (specViolations twoViolations) = 2"
    by (simp add: specViolations_def specRequired_def specEnumeration_def specNumericRange_def
        twoViolations_def zeroConfig_def)
  have "specViolations twoViolations = [''Config.App.Name'', ''Config.Server.Port'']"
    by (simp add: specViolations_def specRequired_def specEnumeration_def specNumericRange_def
        twoViolations_def zeroConfig_def)
  with h violations_collected [OF h, of "\<lparr> stdout = [], stderr = [] \<rparr>"] show ?thesis by simp
qed

text \<open>
  Claim C7. The bounds of the port are inclusive: 1024 and 9000 yield no error for the
  port, 1023 yields exactly one (\<^verbatim>\<open>gte\<close>) and 9001 exactly one (\<^verbatim>\<open>lte\<close>), whatever
  the other fields hold. In general the port is reported exactly when it lies outside
  the interval, and never twice.
\<close>

theorem port_bounds:
  "(Port (Server c) = 1024 \<or> Port (Server c) = 9000 \<longrightarrow> errorsAt ''Config.Server.Port'' c = [])
   \<and> (Port (Server c) = 1023 \<longrightarrow>
        errorsAt ''Config.Server.Port'' c =
          [\<lparr> Namespace = ''Config.Server.Port'', Field = ''Port'', Tag = ''gte'',
              Value = IntVal 1023, Param = ''1024'' \<rparr>])
   \<and> (Port (Server c) = 9001 \<longrightarrow>
        errorsAt ''Config.Server.Port'' c =
          [\<lparr> Namespace = ''Config.Server.Port'', Field = ''Port'', Tag = ''lte'',
              Value = IntVal 9001, Param = ''9000'' \<rparr>])
   \<and> (errorsAt ''Config.Server.Port'' c \<noteq> [] \<longleftrightarrow> specNumericRange 1024 9000 (Port (Server c)))
   \<and> length (errorsAt ''Config.Server.Port'' c) \<le> 1"
  by (simp add: errorsAt_def Struct_eq specNumericRange_def)

definition withPort :: "int \<Rightarrow> Config" where
  "withPort p = zeroConfig\<lparr> Server := \<lparr> Host = '''', Port = p, Timeout = 0 \<rparr> \<rparr>"

theorem port_bounds_witness:
  "errorsAt ''Config.Server.Port'' (withPort 1024) = []
   \<and> errorsAt ''Config.Server.Port'' (withPort 9000) = []
   \<and> length (errorsAt ''Config.Server.Port'' (withPort 1023)) = 1
   \<and> length (errorsAt ''Config.Server.Port'' (withPort 9001)) = 1"
  using port_bounds [of "withPort 1024"] port_bounds [of "withPort 9000"]
    port_bounds [of "withPort 1023"] port_bounds [of "withPort 9001"]
  by (simp add: withPort_def zeroConfig_def)

text \<open>
  Claim C8. The environment of the application is reported exactly when it is not
  empty and not one of development, staging, production; the error is the one of the
  \<^verbatim>\<open>oneof\<close> tag. The empty string is exempt.
\<close>

theorem environment_enumeration:
  "errorsAt ''Config.App.Environment'' c =
     (if specEnumeration [''development'', ''staging'', ''production''] (Environment (App c))
      then [\<lparr> Namespace = ''Config.App.Environment'', Field = ''Environment'', Tag = ''oneof'',
               Value = StringVal (Environment (App c)), Param = ''development staging production'' \<rparr>]
      else [])"
  by (simp add: errorsAt_def Struct_eq specEnumeration_def)

definition withEnvironment :: "string \<Rightarrow> Config" where
  "withEnvironment e = zeroConfig\<lparr> App := \<lparr> Name = ''myapp'', Version = '''', Environment = e \<rparr> \<rparr>"

theorem environment_enumeration_witness:
  "errorsAt ''Config.App.Environment'' (withEnvironment '''') = []
   \<and> errorsAt ''Config.App.Environment'' (withEnvironment ''staging'') = []
   \<and> errorsAt ''Config.App.Environment'' (withEnvironment ''test'') =
        [\<lparr> Namespace = ''Config.App.Environment'', Field = ''Environment'', Tag = ''oneof'',
            Value = StringVal ''test'', Param = ''development staging production'' \<rparr>]"
  using environment_enumeration [of "withEnvironment ''''"]
    environment_enumeration [of "withEnvironment ''staging''"]
    environment_enumeration [of "withEnvironment ''test''"]
  by (simp add: withEnvironment_def zeroConfig_def specEnumeration_def)

section \<open>A run without a configuration file\<close>





























section \<open>The extension helpers\<close>

text \<open>
  Each helper walks \<^verbatim>\<open>keys\<close> with \<^verbatim>\<open>current\<close> starting at the Extensions map.
  The loop body returns at the last key; before it, it steps into \<^verbatim>\<open>m[key]\<close> when
  \<^verbatim>\<open>current\<close> is a map and returns the zero value otherwise. With no key at all the loop body
  never runs and the final \<^verbatim>\<open>return\<close> is reached.
\<close>

fun stringLoop :: "any \<Rightarrow> string list \<Rightarrow> string \<times> bool" where
  "stringLoop current [] = ('''', False)"
| "stringLoop current [key] =
     (case current of
        AMap m \<Rightarrow> (case index m key of AStr val \<Rightarrow> (val, True) | _ \<Rightarrow> ('''', False))
      | _ \<Rightarrow> ('''', False))"
| "stringLoop current (key # keys) =
     (case current of
        AMap m \<Rightarrow> stringLoop (index m key) keys
      | _ \<Rightarrow> ('''', False))"

fun boolLoop :: "any \<Rightarrow> string list \<Rightarrow> bool \<times> bool" where
  "boolLoop current [] = (False, False)"
| "boolLoop current [key] =
     (case current of
        AMap m \<Rightarrow> (case index m key of ABool val \<Rightarrow> (val, True) | _ \<Rightarrow> (False, False))
      | _ \<Rightarrow> (False, False))"
| "boolLoop current (key # keys) =
     (case current of
        AMap m \<Rightarrow> boolLoop (index m key) keys
      | _ \<Rightarrow> (False, False))"

fun intLoop :: "any \<Rightarrow> string list \<Rightarrow> int \<times> bool" where
  "intLoop current [] = (0, False)"
| "intLoop current [key] =
     (case current of
        AMap m \<Rightarrow> (case index m key of AInt val \<Rightarrow> (val, True) | _ \<Rightarrow> (0, False))
      | _ \<Rightarrow> (0, False))"
| "intLoop current (key # keys) =
     (case current of
        AMap m \<Rightarrow> intLoop (index m key) keys
      | _ \<Rightarrow> (0, False))"

definition GetExtensionString :: "'a ExtConfig_scheme \<Rightarrow> string list \<Rightarrow> string \<times> bool" where
  "GetExtensionString c keys = stringLoop (AMap (Extensions c)) keys"

definition GetExtensionBool :: "'a ExtConfig_scheme \<Rightarrow> string list \<Rightarrow> bool \<times> bool" where
  "GetExtensionBool c keys = boolLoop (AMap (Extensions c)) keys"

definition GetExtensionInt :: "'a ExtConfig_scheme \<Rightarrow> string list \<Rightarrow> int \<times> bool" where
  "GetExtensionInt c keys = intLoop (AMap (Extensions c)) keys"

text \<open>
  What a key path resolves to, in the words of the claim: no value for the empty path,
  for a missing key and for a path that runs through something that is not a map.
  A key bound to \<^verbatim>\<open>nil\<close> resolves to \<open>ANil\<close>, which is of none of the three requested types.
\<close>

fun resolves :: "(string \<times> any) list \<Rightarrow> string list \<Rightarrow> any option" where
  "resolves m [] = None"
| "resolves m [key] = map_of m key"
| "resolves m (key # keys) =
     (case map_of m key of Some (AMap m') \<Rightarrow> resolves m' keys | _ \<Rightarrow> None)"

lemma stringLoop_resolves:
  "stringLoop (AMap m) keys =
     (case resolves m keys of Some (AStr val) \<Rightarrow> (val, True) | _ \<Rightarrow> ('''', False))"
proof (induction m keys rule: resolves.induct)
  case (1 m)
  show ?case by simp
next
  case (2 m key)
  show ?case by (simp add: index_def split: option.split any.split)
next
  case (3 m key k ks)
  show ?case
  proof (cases "map_of m key")
    case None
    then show ?thesis by (cases ks) (simp_all add: index_def)
  next
    case (Some v)
    then show ?thesis using 3 by (cases v; cases ks) (simp_all add: index_def)
  qed
qed

lemma boolLoop_resolves:
  "boolLoop (AMap m) keys =
     (case resolves m keys of Some (ABool val) \<Rightarrow> (val, True) | _ \<Rightarrow> (False, False))"
proof (induction m keys rule: resolves.induct)
  case (1 m)
  show ?case by simp
next
  case (2 m key)
  show ?case by (simp add: index_def split: option.split any.split)
next
  case (3 m key k ks)
  show ?case
  proof (cases "map_of m key")
    case None
    then show ?thesis by (cases ks) (simp_all add: index_def)
  next
    case (Some v)
    then show ?thesis using 3 by (cases v; cases ks) (simp_all add: index_def)
  qed
qed

lemma intLoop_resolves:
  "intLoop (AMap m) keys =
     (case resolves m keys of Some (AInt val) \<Rightarrow> (val, True) | _ \<Rightarrow> (0, False))"
proof (induction m keys rule: resolves.induct)
  case (1 m)
  show ?case by simp
next
  case (2 m key)
  show ?case by (simp add: index_def split: option.split any.split)
next
  case (3 m key k ks)
  show ?case
  proof (cases "map_of m key")
    case None
    then show ?thesis by (cases ks) (simp_all add: index_def)
  next
    case (Some v)
    then show ?thesis using 3 by (cases v; cases ks) (simp_all add: index_def)
  qed
qed

text \<open>
  Claim C10. For every Config and every list of keys, the empty list included, each of
  GetExtensionString, GetExtensionBool and GetExtensionInt returns the value with
  \<open>True\<close> exactly when the whole path resolves in Extensions to a value of the requested
  type, and the zero value with \<open>False\<close> in every other case: a missing key, a path through
  a value that is not a map, a value of another type. The helpers are total functions of
  the Config and the keys, with no failing branch, and return nothing but the pair: the
  Config is only read.
\<close>

theorem GetExtension_total:
  "GetExtensionString c keys =
     (case resolves (Extensions c) keys of Some (AStr s) \<Rightarrow> (s, True) | _ \<Rightarrow> ('''', False))
   \<and> GetExtensionBool c keys =
     (case resolves (Extensions c) keys of Some (ABool b) \<Rightarrow> (b, True) | _ \<Rightarrow> (False, False))
   \<and> GetExtensionInt c keys =
     (case resolves (Extensions c) keys of Some (AInt i) \<Rightarrow> (i, True) | _ \<Rightarrow> (0, False))"
  unfolding GetExtensionString_def GetExtensionBool_def GetExtensionInt_def
  using stringLoop_resolves boolLoop_resolves intLoop_resolves by simp

text \<open>
  The example configuration of the package's README: two extension groups beside the
  fixed ones.
\<close>

definition readmeConfig :: ExtConfig where
  "readmeConfig =
     \<lparr> App = \<lparr> Name = ''myapp'', Version = ''1.0.0'', Environment = '''' \<rparr>,
       Server = \<lparr> Host = ''localhost'', Port = 8080, Timeout = 0 \<rparr>,
       Database = \<lparr> DbHost = '''', DbPort = 0, Username = '''', Password = '''', DbName = '''' \<rparr>,
       Logging = \<lparr> Level = '''', Format = '''' \<rparr>,
       Extensions =
         [(''features'', AMap [(''enable_metrics'', ABool True), (''cache_ttl'', AInt 3600)]),
          (''custom'', AMap [(''team'', AStr ''platform''), (''region'', AStr ''us-west-2'')])] \<rparr>"

theorem GetExtension_total_witness:
  "GetExtensionString readmeConfig [''custom'', ''team''] = (''platform'', True)
   \<and> GetExtensionBool readmeConfig [''features'', ''enable_metrics''] = (True, True)
   \<and> GetExtensionInt readmeConfig [''features'', ''cache_ttl''] = (3600, True)
   \<and> GetExtensionString readmeConfig [] = ('''', False)
   \<and> GetExtensionInt readmeConfig [''features'', ''enable_metrics''] = (0, False)
   \<and> GetExtensionBool readmeConfig [''custom'', ''team'', ''lead''] = (False, False)
   \<and> GetExtensionString readmeConfig [''missing'', ''team''] = ('''', False)"
  using GetExtension_total [of readmeConfig "[''custom'', ''team'']"]
    GetExtension_total [of readmeConfig "[''features'', ''enable_metrics'']"]
    GetExtension_total [of readmeConfig "[''features'', ''cache_ttl'']"]
    GetExtension_total [of readmeConfig "[]"]
    GetExtension_total [of readmeConfig "[''custom'', ''team'', ''lead'']"]
    GetExtension_total [of readmeConfig "[''missing'', ''team'']"]
  by (simp add: readmeConfig_def)

end
